theory Spec2Isabelle
  imports Complex_Main "HOL-Library.Multiset" "HOL-Library.Monad_Syntax"
begin

unbundle bit_operations_syntax

section \<open>Running statistics triples\<close>

text \<open>
  The kernels of \<^verbatim>\<open>layer_norm.cu\<close> are templates over the element type \<^verbatim>\<open>DType\<close>.
  The development instantiates \<^verbatim>\<open>DType\<close> with the real numbers (exact arithmetic), so
  rounding is not modelled. A running triple is \<open>(mean, sigma2, count)\<close>: the three
  reference parameters the device functions update in place. The count is a \<^verbatim>\<open>DType\<close>
  in the source as well.
\<close>

type_synonym triple = "real \<times> real \<times> real"

text \<open>
  \<^verbatim>\<open>StepWelfordOnlineSum(curr, mean, sigma2, count)\<close>: the statements of the source in
  order; the updated mean is the one used in the update of \<open>sigma2\<close>. The
  variable \<open>cnt\<close> is the source's \<^verbatim>\<open>count\<close> and \<open>curr_val\<close> its \<^verbatim>\<open>curr\<close>.
\<close>

definition StepWelfordOnlineSum :: "real \<Rightarrow> triple \<Rightarrow> triple" where
  "StepWelfordOnlineSum curr_val t =
     (case t of (mean, sigma2, cnt) \<Rightarrow>
        let count1 = cnt + 1;
            delta = curr_val - mean;
            mean1 = mean + delta / count1;
            sigma21 = sigma2 + delta * (curr_val - mean1)
        in (mean1, sigma21, count1))"

text \<open>
  \<^verbatim>\<open>ChanMergePartition(lhs_mean, lhs_sigma2, lhs_count, rhs_mean, rhs_sigma2, rhs_count)\<close>:
  the left triple is merged into the right one, which is returned updated. In the
  \<^verbatim>\<open>else\<close> branch the count keeps the sum \<open>nA + nB\<close>.
\<close>

definition ChanMergePartition :: "triple \<Rightarrow> triple \<Rightarrow> triple" where
  "ChanMergePartition lhs rhs =
     (case lhs of (lhs_mean, lhs_sigma2, lhs_count) \<Rightarrow>
      case rhs of (rhs_mean, rhs_sigma2, rhs_count) \<Rightarrow>
        let delta = rhs_mean - lhs_mean;
            nA = lhs_count;
            nB = rhs_count;
            rhs_count1 = nA + nB
        in if rhs_count1 > 0
           then let nA1 = nA / rhs_count1;
                    nB1 = nB / rhs_count1
                in (nA1 * lhs_mean + nB1 * rhs_mean,
                    rhs_sigma2 + lhs_sigma2 + delta * delta * nA1 * nB1 * rhs_count1,
                    rhs_count1)
           else (0, 0, rhs_count1))"

text \<open>The initial triple of every lane: \<^verbatim>\<open>count = 0, mean = 0, sigma2 = 0\<close>.\<close>

definition zero_triple :: triple where
  "zero_triple = (0, 0, 0)"

section \<open>The element type in single precision\<close>

text \<open>
  With \<^verbatim>\<open>DType = float\<close> the arithmetic of the device functions is that of IEEE 754
  binary32. A value is a finite real number the format represents, an infinity, or a
  NaN. The two zeros are not told apart: they compare equal, and
  \<^verbatim>\<open>ChanMergePartition\<close> divides only by a count it has tested to be positive.

  \<open>rnd32\<close> rounds an exact result to the nearest value of the format, ties to even:
  24 significant bits, the least exponent \<open>-126\<close> (below it the quantum stays
  \<open>2 powi (-149)\<close>), and a result whose rounded magnitude reaches \<open>2 ^ 128\<close> is an infinity.
\<close>

datatype f32 = Fin real | PInf | NInf | NaN

definition round_even :: "real \<Rightarrow> int" where
  "round_even q =
     (let f = \<lfloor>q\<rfloor>
      in if q - of_int f < 1 / 2 then f
         else if q - of_int f > 1 / 2 then f + 1
         else if even f then f else f + 1)"

definition rnd32 :: "real \<Rightarrow> f32" where
  "rnd32 x =
     (if x = 0 then Fin 0
      else
        let e = max \<lfloor>log 2 \<bar>x\<bar>\<rfloor> (- 126);
            ulp = 2 powi (e - 23);
            r = of_int (round_even (x / ulp)) * ulp
        in if \<bar>r\<bar> \<ge> 2 ^ 128 then (if x > 0 then PInf else NInf) else Fin r)"

text \<open>
  The operations: correctly rounded on finite operands, and the results the standard
  fixes on infinities and NaN; in particular an infinity times zero is a NaN, and a
  comparison with a NaN is false. The contraction of a product and a sum into one fused
  operation, which a compiler may apply, is not modelled.
\<close>

fun fneg :: "f32 \<Rightarrow> f32" where
  "fneg (Fin x) = Fin (- x)"
| "fneg PInf = NInf"
| "fneg NInf = PInf"
| "fneg NaN = NaN"

fun fadd :: "f32 \<Rightarrow> f32 \<Rightarrow> f32" where
  "fadd NaN b = NaN"
| "fadd a NaN = NaN"
| "fadd PInf NInf = NaN"
| "fadd NInf PInf = NaN"
| "fadd PInf b = PInf"
| "fadd a PInf = PInf"
| "fadd NInf b = NInf"
| "fadd a NInf = NInf"
| "fadd (Fin x) (Fin y) = rnd32 (x + y)"

definition fsub :: "f32 \<Rightarrow> f32 \<Rightarrow> f32" where
  "fsub a b = fadd a (fneg b)"

definition inf_of_sign :: "bool \<Rightarrow> f32" where
  "inf_of_sign positive = (if positive then PInf else NInf)"

fun fmul :: "f32 \<Rightarrow> f32 \<Rightarrow> f32" where
  "fmul NaN b = NaN"
| "fmul a NaN = NaN"
| "fmul (Fin x) (Fin y) = rnd32 (x * y)"
| "fmul (Fin x) PInf = (if x = 0 then NaN else inf_of_sign (x > 0))"
| "fmul (Fin x) NInf = (if x = 0 then NaN else inf_of_sign (x < 0))"
| "fmul PInf (Fin y) = (if y = 0 then NaN else inf_of_sign (y > 0))"
| "fmul NInf (Fin y) = (if y = 0 then NaN else inf_of_sign (y < 0))"
| "fmul PInf PInf = PInf"
| "fmul NInf NInf = PInf"
| "fmul PInf NInf = NInf"
| "fmul NInf PInf = NInf"

fun fdiv :: "f32 \<Rightarrow> f32 \<Rightarrow> f32" where
  "fdiv NaN b = NaN"
| "fdiv a NaN = NaN"
| "fdiv (Fin x) (Fin y) =
     (if y = 0 then (if x = 0 then NaN else inf_of_sign (x > 0)) else rnd32 (x / y))"
| "fdiv (Fin x) PInf = Fin 0"
| "fdiv (Fin x) NInf = Fin 0"
| "fdiv PInf (Fin y) = inf_of_sign (y \<ge> 0)"
| "fdiv NInf (Fin y) = inf_of_sign (y < 0)"
| "fdiv PInf PInf = NaN"
| "fdiv PInf NInf = NaN"
| "fdiv NInf PInf = NaN"
| "fdiv NInf NInf = NaN"

fun fgt :: "f32 \<Rightarrow> f32 \<Rightarrow> bool" where
  "fgt NaN b = False"
| "fgt a NaN = False"
| "fgt (Fin x) (Fin y) = (x > y)"
| "fgt PInf PInf = False"
| "fgt PInf b = True"
| "fgt a PInf = False"
| "fgt a NInf = (a \<noteq> NInf)"
| "fgt NInf b = False"

text \<open>
  \<^verbatim>\<open>ChanMergePartition\<close> at \<^verbatim>\<open>DType = float\<close>: the statements of the source with the
  operations above, the products of the last summand taken from the left as the
  expression \<^verbatim>\<open>delta * delta * nA * nB * rhs_count\<close> is parsed.
\<close>

definition ChanMergePartition_f32 ::
  "f32 \<times> f32 \<times> f32 \<Rightarrow> f32 \<times> f32 \<times> f32 \<Rightarrow> f32 \<times> f32 \<times> f32" where
  "ChanMergePartition_f32 lhs rhs =
     (case lhs of (lhs_mean, lhs_sigma2, lhs_count) \<Rightarrow>
      case rhs of (rhs_mean, rhs_sigma2, rhs_count) \<Rightarrow>
        let delta = fsub rhs_mean lhs_mean;
            nA = lhs_count;
            nB = rhs_count;
            rhs_count1 = fadd nA nB
        in if fgt rhs_count1 (Fin 0)
           then let nA1 = fdiv nA rhs_count1;
                    nB1 = fdiv nB rhs_count1
                in (fadd (fmul nA1 lhs_mean) (fmul nB1 rhs_mean),
                    fadd (fadd rhs_sigma2 lhs_sigma2)
                      (fmul (fmul (fmul (fmul delta delta) nA1) nB1) rhs_count1),
                    rhs_count1)
           else (Fin 0, Fin 0, rhs_count1))"

section \<open>Device memory\<close>

text \<open>
  A device buffer is a list of elements. An access outside the buffer is undefined
  behaviour in the source; in the model it is the value \<open>None\<close>, which every caller
  propagates. A loop that would not end (a stride of zero threads) is \<open>None\<close> as well.
  The indices and sizes, of type \<^verbatim>\<open>int\<close> in the source, are natural numbers here: the
  kernels are launched with non-negative sizes, and sizes close to the limit of
  \<^verbatim>\<open>int\<close> are not considered.
\<close>

definition rd :: "real list \<Rightarrow> nat \<Rightarrow> real option" where
  "rd buf i = (if i < length buf then Some (buf ! i) else None)"

definition wr :: "real list \<Rightarrow> nat \<Rightarrow> real \<Rightarrow> real list option" where
  "wr buf i v = (if i < length buf then Some (buf[i := v]) else None)"

text \<open>
  A counted loop whose body may fail: the body runs for each index of the list in order,
  each time on the state the last run left. The threads of a block and the blocks of
  a grid are run this way where they do not communicate.
\<close>

fun for_each :: "(nat \<Rightarrow> 'a \<Rightarrow> 'a option) \<Rightarrow> nat list \<Rightarrow> 'a \<Rightarrow> 'a option" where
  "for_each body [] s = Some s"
| "for_each body (i # js) s = do { s1 \<leftarrow> body i s; for_each body js s1 }"

section \<open>The forward kernel\<close>

text \<open>
  \<^verbatim>\<open>BlockWelfordOnlineSum(tid, nthread, col_vals, nchannel, mean, sigma2, count)\<close>.
  The pointer \<^verbatim>\<open>col_vals = in_data + bid * nchannel\<close> is the pair of the buffer and the
  offset \<open>base\<close>. The first loop takes four consecutive elements per step (the inner
  loop of four iterations is written out) and advances by \<open>4 * nthread\<close>; it returns the
  index it stopped at, from which the second loop continues one element at a time.
\<close>

function BlockWelfordOnlineSum_unrolled ::
  "nat \<Rightarrow> real list \<Rightarrow> nat \<Rightarrow> nat \<Rightarrow> nat \<Rightarrow> triple \<Rightarrow> (nat \<times> triple) option" where
  "BlockWelfordOnlineSum_unrolled nthread in_data base nchannel l t =
     (if nthread = 0 then None
      else if l + 3 < nchannel then
        do {
          v0 \<leftarrow> rd in_data (base + l + 0);
          v1 \<leftarrow> rd in_data (base + l + 1);
          v2 \<leftarrow> rd in_data (base + l + 2);
          v3 \<leftarrow> rd in_data (base + l + 3);
          BlockWelfordOnlineSum_unrolled nthread in_data base nchannel (l + 4 * nthread)
            (StepWelfordOnlineSum v3 (StepWelfordOnlineSum v2
              (StepWelfordOnlineSum v1 (StepWelfordOnlineSum v0 t))))
        }
      else Some (l, t))"
  by pat_completeness auto
termination
  by (relation "measure (\<lambda>(nthread, in_data, base, nchannel, l, t). nchannel - l)") auto

function BlockWelfordOnlineSum_rest ::
  "real list \<Rightarrow> nat \<Rightarrow> nat \<Rightarrow> nat \<Rightarrow> triple \<Rightarrow> triple option" where
  "BlockWelfordOnlineSum_rest in_data base nchannel l t =
     (if l < nchannel then
        do {
          v \<leftarrow> rd in_data (base + l);
          BlockWelfordOnlineSum_rest in_data base nchannel (l + 1) (StepWelfordOnlineSum v t)
        }
      else Some t)"
  by pat_completeness auto
termination
  by (relation "measure (\<lambda>(in_data, base, nchannel, l, t). nchannel - l)") auto

definition BlockWelfordOnlineSum ::
  "nat \<Rightarrow> nat \<Rightarrow> real list \<Rightarrow> nat \<Rightarrow> nat \<Rightarrow> triple \<Rightarrow> triple option" where
  "BlockWelfordOnlineSum tid nthread in_data base nchannel t =
     do {
       (l, t1) \<leftarrow> BlockWelfordOnlineSum_unrolled nthread in_data base nchannel (4 * tid) t;
       BlockWelfordOnlineSum_rest in_data base nchannel l t1
     }"

text \<open>
  The registers of a block are the list of the triples of its threads, at index
  \<open>tid = threadIdx.x + threadIdx.y * blockDim.x\<close> with \<open>blockDim.x = 32\<close> (the kernel is
  always launched with full warps), so \<open>threadIdx.x = tid mod 32\<close> and the warp of a
  thread starts at \<open>32 * (tid div 32)\<close>.

  One round of the intra-warp loop, for the loop variable \<open>l\<close>: every lane reads the
  triple of the lane \<^verbatim>\<open>(threadIdx.x + (1 << l)) & 31\<close> of its warp with \<^verbatim>\<open>WARP_SHFL\<close>
  and merges it into its own. The lanes run in lock-step: all of them read the values
  of before the round.
\<close>

definition WarpMergeRound :: "nat \<Rightarrow> triple list \<Rightarrow> triple list" where
  "WarpMergeRound l lanes =
     map (\<lambda>tid. let src_lane = (tid mod 32 + 2 ^ l) mod 32
                in ChanMergePartition (lanes ! (32 * (tid div 32) + src_lane)) (lanes ! tid))
         [0..<length lanes]"

text \<open>The loop \<^verbatim>\<open>for (int l = 0; l <= 4; ++l)\<close>.\<close>

definition WarpMerge :: "triple list \<Rightarrow> triple list" where
  "WarpMerge lanes = fold WarpMergeRound [0..<5] lanes"

text \<open>
  The inter-warp loop \<^verbatim>\<open>for (offset = blockDim.y / 2; offset > 0; offset /= 2)\<close>. The
  shared memory \<open>buf\<close> has \<open>blockDim.y + blockDim.y div 2\<close> elements; \<^verbatim>\<open>mean_buf\<close> starts
  at element 0, \<^verbatim>\<open>sigma2_buf\<close> at \<open>blockDim.y div 2\<close> and \<^verbatim>\<open>count_buf\<close> at \<open>blockDim.y\<close>
  (the source gives the offsets in bytes; they are whole elements for an even
  \<open>blockDim.y\<close>, and the kernel is launched with 1 or 2).
  Only lane 0 of a warp takes part: the warps \<open>offset \<le> threadIdx.y < 2 * offset\<close> store
  their triple, and after the barrier the warps \<open>threadIdx.y < offset\<close> merge the stored
  triple at their own index into theirs.
\<close>

definition InterWarpStore :: "nat \<Rightarrow> nat \<Rightarrow> triple list \<Rightarrow> nat \<Rightarrow> real list \<Rightarrow> real list" where
  "InterWarpStore blockDim_y offset lanes y buf =
     (case lanes ! (32 * y) of (mean, sigma2, cnt) \<Rightarrow>
        let idx = y - offset
        in buf[idx := mean, blockDim_y div 2 + idx := sigma2, blockDim_y + idx := cnt])"

definition InterWarpLoad :: "nat \<Rightarrow> real list \<Rightarrow> nat \<Rightarrow> triple list \<Rightarrow> triple list" where
  "InterWarpLoad blockDim_y buf y lanes =
     lanes[32 * y := ChanMergePartition
                       (buf ! y, buf ! (blockDim_y div 2 + y), buf ! (blockDim_y + y))
                       (lanes ! (32 * y))]"

function InterWarpReduce ::
  "nat \<Rightarrow> nat \<Rightarrow> triple list \<Rightarrow> real list \<Rightarrow> triple list \<times> real list" where
  "InterWarpReduce blockDim_y offset lanes buf =
     (if offset > 0 then
        let buf1 = fold (InterWarpStore blockDim_y offset lanes) [offset..<2 * offset] buf;
            lanes1 = fold (InterWarpLoad blockDim_y buf1) [0..<offset] lanes
        in InterWarpReduce blockDim_y (offset div 2) lanes1 buf1
      else (lanes, buf))"
  by pat_completeness auto
termination
  by (relation "measure (\<lambda>(blockDim_y, offset, lanes, buf). offset)") auto

text \<open>
  The reduction of one block: the per-thread sums, the intra-warp merge, and then either
  the shuffle from lane 0 (\<^verbatim>\<open>blockDim.y == 1\<close>) or the inter-warp loop followed by the
  broadcast through \<^verbatim>\<open>mean_buf[0]\<close> and \<^verbatim>\<open>sigma2_buf[0]\<close>. The result is the pair
  \<open>(mean, sigma2)\<close> that every thread of the block holds afterwards, where \<open>sigma2\<close> is
  already divided by \<open>nchannel\<close>.
\<close>

definition BlockLanes :: "nat \<Rightarrow> real list \<Rightarrow> nat \<Rightarrow> nat \<Rightarrow> triple list option" where
  "BlockLanes nthread in_data base nchannel =
     those (map (\<lambda>tid. BlockWelfordOnlineSum tid nthread in_data base nchannel zero_triple)
                [0..<nthread])"

definition BlockReduce :: "nat \<Rightarrow> nat \<Rightarrow> triple list \<Rightarrow> real \<times> real" where
  "BlockReduce blockDim_y nchannel lanes0 =
     (let lanes = WarpMerge lanes0
      in if blockDim_y = 1 then
           (case lanes ! 0 of (mean, sigma2, cnt) \<Rightarrow> (mean, sigma2 / real nchannel))
         else
           (case InterWarpReduce blockDim_y (blockDim_y div 2) lanes
                   (replicate (blockDim_y + blockDim_y div 2) 0) of
              (lanes1, buf) \<Rightarrow>
                (case lanes1 ! 0 of (mean, sigma2, cnt) \<Rightarrow>
                   let buf1 = buf[0 := mean, blockDim_y div 2 := sigma2]
                   in (buf1 ! 0, buf1 ! (blockDim_y div 2) / real nchannel))))"

text \<open>
  The four specialisations of the output loop
  \<^verbatim>\<open>for (int i = tid; i < nchannel; i += nthread)\<close>, selected by which of \<^verbatim>\<open>gamma\<close> and
  \<^verbatim>\<open>beta\<close> is \<^verbatim>\<open>NULL\<close> (\<open>None\<close>).
\<close>

definition ForwardElement ::
  "real list option \<Rightarrow> real list option \<Rightarrow> real \<Rightarrow> real \<Rightarrow> real \<Rightarrow> nat \<Rightarrow> real option" where
  "ForwardElement gamma beta invstd_eps mean x i =
     (case (gamma, beta) of
        (Some g, Some b) \<Rightarrow>
          do { gi \<leftarrow> rd g i; bi \<leftarrow> rd b i; Some (gi * invstd_eps * (x - mean) + bi) }
      | (None, Some b) \<Rightarrow>
          do { bi \<leftarrow> rd b i; Some (invstd_eps * (x - mean) + bi) }
      | (Some g, None) \<Rightarrow>
          do { gi \<leftarrow> rd g i; Some (gi * invstd_eps * (x - mean)) }
      | (None, None) \<Rightarrow> Some (invstd_eps * (x - mean)))"

function ForwardOutputLoop ::
  "nat \<Rightarrow> nat \<Rightarrow> nat \<Rightarrow> real list \<Rightarrow> real list option \<Rightarrow> real list option \<Rightarrow> real \<Rightarrow> real
     \<Rightarrow> nat \<Rightarrow> real list \<Rightarrow> real list option" where
  "ForwardOutputLoop nthread nchannel base in_data gamma beta invstd_eps mean i out_data =
     (if nthread = 0 then None
      else if i < nchannel then
        do {
          x \<leftarrow> rd in_data (base + i);
          v \<leftarrow> ForwardElement gamma beta invstd_eps mean x i;
          out1 \<leftarrow> wr out_data (base + i) v;
          ForwardOutputLoop nthread nchannel base in_data gamma beta invstd_eps mean
            (i + nthread) out1
        }
      else Some out_data)"
  by pat_completeness auto
termination
  by (relation "measure (\<lambda>(nthread, nchannel, base, in_data, gamma, beta, invstd_eps, mean,
                            i, out_data). nchannel - i)") auto

text \<open>
  \<^verbatim>\<open>LayerNormFusedForwardKernelContig\<close> for the block \<open>bid\<close>, on the triple of the output
  buffers \<open>(out_data, mean_data, std_data)\<close>. The threads write disjoint elements of
  \<^verbatim>\<open>out_data\<close> and read only the \<^verbatim>\<open>__restrict__\<close> inputs, so the output loops are run
  thread after thread. Thread \<open>(0, 0)\<close> writes the statistics of the row.
\<close>

definition LayerNormFusedForwardKernelContig_block ::
  "nat \<Rightarrow> nat \<Rightarrow> nat \<Rightarrow> nat \<Rightarrow> real \<Rightarrow> real list \<Rightarrow> real list option \<Rightarrow> real list option
     \<Rightarrow> real list \<times> real list \<times> real list \<Rightarrow> (real list \<times> real list \<times> real list) option" where
  "LayerNormFusedForwardKernelContig_block blockDim_y bid nbatch nchannel eps in_data gamma beta outs =
     (case outs of (out_data, mean_data, std_data) \<Rightarrow>
      if bid < nbatch then
        let nthread = 32 * blockDim_y;
            base = bid * nchannel
        in do {
          lanes \<leftarrow> BlockLanes nthread in_data base nchannel;
          (mean, sigma2) \<leftarrow> Some (BlockReduce blockDim_y nchannel lanes);
          let std_eps = sqrt (sigma2 + eps);
              invstd_eps = 1 / std_eps
          in do {
            out1 \<leftarrow> for_each
                      (ForwardOutputLoop nthread nchannel base in_data gamma beta invstd_eps mean)
                      [0..<nthread] out_data;
            mean1 \<leftarrow> wr mean_data bid mean;
            std1 \<leftarrow> wr std_data bid std_eps;
            Some (out1, mean1, std1)
          }
        }
      else Some outs)"

text \<open>
  The grid: the blocks \<open>(blockIdx.x, blockIdx.y)\<close> with
  \<open>bid = blockIdx.x + blockIdx.y * gridDim.x\<close>. Blocks work on different rows and do not
  communicate, so they are run one after the other.
\<close>

definition grid_blocks :: "nat \<Rightarrow> nat \<Rightarrow> nat list" where
  "grid_blocks gridDim_x gridDim_y =
     concat (map (\<lambda>by. map (\<lambda>bx. bx + by * gridDim_x) [0..<gridDim_x]) [0..<gridDim_y])"

definition LayerNormFusedForwardKernelContig ::
  "nat \<times> nat \<Rightarrow> nat \<Rightarrow> nat \<Rightarrow> nat \<Rightarrow> real \<Rightarrow> real list \<Rightarrow> real list option \<Rightarrow> real list option
     \<Rightarrow> real list \<times> real list \<times> real list \<Rightarrow> (real list \<times> real list \<times> real list) option" where
  "LayerNormFusedForwardKernelContig dimGrid blockDim_y nbatch nchannel eps in_data gamma beta outs =
     for_each
       (\<lambda>bid. LayerNormFusedForwardKernelContig_block blockDim_y bid nbatch nchannel eps
                 in_data gamma beta)
       (grid_blocks (fst dimGrid) (snd dimGrid)) outs"

text \<open>
  \<^verbatim>\<open>LayerNormGPUContig\<close>: the launch geometry and the launch. The constants
  \<^verbatim>\<open>kMaxGridDim\<close> and \<^verbatim>\<open>kBaseGridNum\<close> are declared outside the given sources and are
  parameters here. The shape is that of the input tensor; all axes but the last are
  collapsed into \<open>nbatch\<close>. The contiguity checks concern the tensor descriptors, which
  the flat buffers of the model always satisfy; \<^verbatim>\<open>CheckLaunchParam\<close> is outside the given
  sources and is not modelled.
\<close>

definition launch_grid :: "nat \<Rightarrow> nat \<Rightarrow> nat \<Rightarrow> nat \<times> nat" where
  "launch_grid kMaxGridDim kBaseGridNum nbatch =
     (let ngrid_x = (if nbatch > kMaxGridDim
                     then (nbatch + kBaseGridNum - 1) div kBaseGridNum else nbatch);
          ngrid_y = (if nbatch > kMaxGridDim then kBaseGridNum else 1)
      in (ngrid_x, ngrid_y))"

definition LayerNormGPUContig ::
  "nat \<Rightarrow> nat \<Rightarrow> nat list \<Rightarrow> real \<Rightarrow> real list \<Rightarrow> real list option \<Rightarrow> real list option
     \<Rightarrow> real list \<times> real list \<times> real list \<Rightarrow> (real list \<times> real list \<times> real list) option" where
  "LayerNormGPUContig kMaxGridDim kBaseGridNum shape eps in_data gamma beta outs =
     (let nbatch = prod_list (butlast shape);
          nchannel = last shape;
          dimGrid = launch_grid kMaxGridDim kBaseGridNum nbatch;
          nthread_y = (if nchannel \<le> 32 then 1 else 2)
      in LayerNormFusedForwardKernelContig dimGrid nthread_y nbatch nchannel eps
           in_data gamma beta outs)"

section \<open>The backward kernels\<close>

text \<open>
  The backward path passes pointers to the kernels, and which buffer a pointer denotes
  matters. A store maps the names of the buffers (of any type \<open>'b\<close>) to their contents;
  a kernel receives the names of its arguments and reads and writes the store through
  them. A \<^verbatim>\<open>nullptr\<close> gradient pointer is \<open>None\<close>.
\<close>

type_synonym 'b store = "'b \<Rightarrow> real list"

definition store_add :: "'b store \<Rightarrow> 'b \<Rightarrow> nat \<Rightarrow> real \<Rightarrow> 'b store option" where
  \<comment> \<open>\<^verbatim>\<open>p[i] += v\<close>\<close>
  "store_add s p i v = do { old \<leftarrow> rd (s p) i; new \<leftarrow> wr (s p) i (old + v); Some (s(p := new)) }"

definition store_set :: "'b store \<Rightarrow> 'b \<Rightarrow> nat \<Rightarrow> real \<Rightarrow> 'b store option" where
  \<comment> \<open>\<^verbatim>\<open>p[i] = v\<close>\<close>
  "store_set s p i v = do { new \<leftarrow> wr (s p) i v; Some (s(p := new)) }"

subsection \<open>\<^verbatim>\<open>LayerNormFusedBackwardKernel_GammaBeta\<close>\<close>

text \<open>
  The thread-local arrays of the kernel, each of \<^verbatim>\<open>LOAD_UNROLL\<close> elements. The source
  leaves them uninitialised; the model starts them at zero, which no read observes:
  the gradient arrays are read only under the flag that also guards their
  initialisation, or after the unconditional initialisation of the second loop.
\<close>

record locals =
  local_mean :: "real list"
  local_std :: "real list"
  local_gamma_grad :: "real list"
  local_beta_grad :: "real list"

text \<open>
  The body of the initialisation loop of the first (unrolled) loop, for the index \<open>i\<close>.
  The statistics are read at the channel index \<open>l + i\<close>.
\<close>

definition GammaBeta_init ::
  "bool \<Rightarrow> bool \<Rightarrow> real list \<Rightarrow> real list \<Rightarrow> nat \<Rightarrow> nat \<Rightarrow> locals \<Rightarrow> locals option" where
  "GammaBeta_init need_gamma_grad need_beta_grad mean_data std_data l i loc =
     do {
       m \<leftarrow> rd mean_data (l + i);
       sd \<leftarrow> rd std_data (l + i);
       Some (loc\<lparr>local_mean := (local_mean loc)[i := m],
                 local_std := (local_std loc)[i := sd],
                 local_gamma_grad :=
                   (if need_gamma_grad then (local_gamma_grad loc)[i := 0]
                    else local_gamma_grad loc),
                 local_beta_grad :=
                   (if need_beta_grad then (local_beta_grad loc)[i := 0]
                    else local_beta_grad loc)\<rparr>)
     }"

text \<open>The body of the summation loops, for the row \<open>b\<close> and the index \<open>i\<close>.\<close>

definition GammaBeta_accum ::
  "bool \<Rightarrow> bool \<Rightarrow> real list \<Rightarrow> real list \<Rightarrow> nat \<Rightarrow> nat \<Rightarrow> nat \<Rightarrow> nat \<Rightarrow> locals
     \<Rightarrow> locals option" where
  "GammaBeta_accum need_gamma_grad need_beta_grad in_data out_grad nchannel l b i loc =
     do {
       ele_og \<leftarrow> rd out_grad (b * nchannel + l + i);
       ele_x \<leftarrow> rd in_data (b * nchannel + l + i);
       Some (loc\<lparr>local_gamma_grad :=
                   (if need_gamma_grad
                    then (local_gamma_grad loc)
                           [i := local_gamma_grad loc ! i
                                 + (ele_x - local_mean loc ! i) / local_std loc ! i * ele_og]
                    else local_gamma_grad loc),
                 local_beta_grad :=
                   (if need_beta_grad
                    then (local_beta_grad loc)[i := local_beta_grad loc ! i + ele_og]
                    else local_beta_grad loc)\<rparr>)
     }"

text \<open>
  The write-back of the first loop, for the index \<open>i\<close>: each gradient is written only
  when its pointer is not null and its \<^verbatim>\<open>addto\<close> flag is set; the source has no
  \<^verbatim>\<open>else\<close> branch here.
\<close>

definition GammaBeta_write_unrolled ::
  "bool \<Rightarrow> bool \<Rightarrow> 'b option \<Rightarrow> 'b option \<Rightarrow> nat \<Rightarrow> locals \<Rightarrow> nat \<Rightarrow> 'b store
     \<Rightarrow> 'b store option" where
  "GammaBeta_write_unrolled gamma_addto beta_addto gamma_grad beta_grad l loc i s =
     do {
       s1 \<leftarrow> (case gamma_grad of
                Some g \<Rightarrow> if gamma_addto then store_add s g (l + i) (local_gamma_grad loc ! i)
                          else Some s
              | None \<Rightarrow> Some s);
       (case beta_grad of
          Some b \<Rightarrow> if beta_addto then store_add s1 b (l + i) (local_beta_grad loc ! i)
                    else Some s1
        | None \<Rightarrow> Some s1)
     }"

text \<open>
  The write-back of the second loop. The identifiers \<^verbatim>\<open>no_gamma\<close> and \<^verbatim>\<open>no_beta\<close> are
  declared nowhere in the given sources and are parameters of the model.
\<close>

definition GammaBeta_write_rest ::
  "bool \<Rightarrow> bool \<Rightarrow> bool \<Rightarrow> bool \<Rightarrow> 'b option \<Rightarrow> 'b option \<Rightarrow> nat \<Rightarrow> locals \<Rightarrow> 'b store
     \<Rightarrow> 'b store option" where
  "GammaBeta_write_rest no_gamma no_beta gamma_addto beta_addto gamma_grad beta_grad l loc s =
     do {
       s1 \<leftarrow> (if \<not> no_gamma then
                (case gamma_grad of
                   Some g \<Rightarrow> if gamma_addto then store_add s g l (local_gamma_grad loc ! 0)
                             else store_set s g l (local_gamma_grad loc ! 0)
                 | None \<Rightarrow> Some s)
              else Some s);
       (if \<not> no_beta then
          (case beta_grad of
             Some b \<Rightarrow> if beta_addto then store_add s1 b l (local_beta_grad loc ! 0)
                       else store_set s1 b l (local_beta_grad loc ! 0)
           | None \<Rightarrow> Some s1)
        else Some s1)
     }"

text \<open>
  The first loop of a thread,
  \<^verbatim>\<open>for (; l + LOAD_UNROLL - 1 < nchannel; l += LOAD_UNROLL * nthread)\<close>; it returns the
  index it stopped at. The state is the pair of the thread-local arrays and the store.
\<close>

function GammaBeta_unrolled ::
  "nat \<Rightarrow> bool \<Rightarrow> bool \<Rightarrow> nat \<Rightarrow> nat \<Rightarrow> nat \<Rightarrow> 'b \<Rightarrow> 'b \<Rightarrow> 'b \<Rightarrow> 'b \<Rightarrow> 'b option \<Rightarrow> 'b option
     \<Rightarrow> nat \<Rightarrow> locals \<times> 'b store \<Rightarrow> (nat \<times> locals \<times> 'b store) option" where
  "GammaBeta_unrolled LOAD_UNROLL gamma_addto beta_addto nthread nbatch nchannel
       in_data out_grad mean_data std_data gamma_grad beta_grad l st =
     (case st of (loc, s) \<Rightarrow>
      if LOAD_UNROLL * nthread = 0 then None
      else if l + LOAD_UNROLL - 1 < nchannel then
        do {
          loc1 \<leftarrow> for_each (GammaBeta_init (gamma_grad \<noteq> None) (beta_grad \<noteq> None)
                              (s mean_data) (s std_data) l) [0..<LOAD_UNROLL] loc;
          loc2 \<leftarrow> for_each
                    (\<lambda>b. for_each (GammaBeta_accum (gamma_grad \<noteq> None) (beta_grad \<noteq> None)
                                     (s in_data) (s out_grad) nchannel l b) [0..<LOAD_UNROLL])
                    [0..<nbatch] loc1;
          s1 \<leftarrow> for_each (GammaBeta_write_unrolled gamma_addto beta_addto gamma_grad beta_grad
                            l loc2) [0..<LOAD_UNROLL] s;
          GammaBeta_unrolled LOAD_UNROLL gamma_addto beta_addto nthread nbatch nchannel
            in_data out_grad mean_data std_data gamma_grad beta_grad
            (l + LOAD_UNROLL * nthread) (loc2, s1)
        }
      else Some (l, loc, s))"
  by pat_completeness auto
termination
proof (relation "measure (\<lambda>(LOAD_UNROLL, gamma_addto, beta_addto, nthread, nbatch, nchannel,
                            in_data, out_grad, mean_data, std_data, gamma_grad, beta_grad,
                            l, st). nchannel - l)", goal_cases)
  case 1
  show ?case by simp
next
  case prems: (2 LOAD_UNROLL gamma_addto beta_addto nthread nbatch nchannel in_data out_grad
                 mean_data std_data gamma_grad beta_grad l)
  from prems(2) have step: "0 < LOAD_UNROLL * nthread" by simp
  from prems(2,3) have "l < nchannel" by (cases LOAD_UNROLL) simp_all
  with step have "nchannel - (l + LOAD_UNROLL * nthread) < nchannel - l" by linarith
  then show ?case by simp
qed

text \<open>
  The second loop, \<^verbatim>\<open>for (; l < nchannel; ++l)\<close>, on element 0 of the local arrays.
  Both gradient accumulators are reset without a test.
\<close>

function GammaBeta_rest ::
  "bool \<Rightarrow> bool \<Rightarrow> bool \<Rightarrow> bool \<Rightarrow> nat \<Rightarrow> nat \<Rightarrow> 'b \<Rightarrow> 'b \<Rightarrow> 'b \<Rightarrow> 'b \<Rightarrow> 'b option \<Rightarrow> 'b option
     \<Rightarrow> nat \<Rightarrow> locals \<times> 'b store \<Rightarrow> (locals \<times> 'b store) option" where
  "GammaBeta_rest no_gamma no_beta gamma_addto beta_addto nbatch nchannel
       in_data out_grad mean_data std_data gamma_grad beta_grad l st =
     (case st of (loc, s) \<Rightarrow>
      if l < nchannel then
        do {
          loc1 \<leftarrow> GammaBeta_init True True (s mean_data) (s std_data) l 0 loc;
          loc2 \<leftarrow> for_each
                    (\<lambda>b. GammaBeta_accum (gamma_grad \<noteq> None) (beta_grad \<noteq> None)
                           (s in_data) (s out_grad) nchannel l b 0)
                    [0..<nbatch] loc1;
          s1 \<leftarrow> GammaBeta_write_rest no_gamma no_beta gamma_addto beta_addto
                  gamma_grad beta_grad l loc2 s;
          GammaBeta_rest no_gamma no_beta gamma_addto beta_addto nbatch nchannel
            in_data out_grad mean_data std_data gamma_grad beta_grad (l + 1) (loc2, s1)
        }
      else Some (loc, s))"
  by pat_completeness auto
termination
  by (relation "measure (\<lambda>(no_gamma, no_beta, gamma_addto, beta_addto, nbatch, nchannel,
                            in_data, out_grad, mean_data, std_data, gamma_grad, beta_grad,
                            l, st). nchannel - l)") auto

text \<open>
  One thread of the kernel, and the kernel: a single block of \<open>nthread\<close> threads. A
  thread works on channel indices no other thread touches, so the threads are run
  one after the other on the store.
\<close>

definition GammaBeta_thread ::
  "nat \<Rightarrow> bool \<Rightarrow> bool \<Rightarrow> bool \<Rightarrow> bool \<Rightarrow> nat \<Rightarrow> nat \<Rightarrow> nat \<Rightarrow> 'b \<Rightarrow> 'b \<Rightarrow> 'b \<Rightarrow> 'b
     \<Rightarrow> 'b option \<Rightarrow> 'b option \<Rightarrow> nat \<Rightarrow> 'b store \<Rightarrow> 'b store option" where
  "GammaBeta_thread LOAD_UNROLL gamma_addto beta_addto no_gamma no_beta nthread nbatch nchannel
       in_data out_grad mean_data std_data gamma_grad beta_grad tid s =
     (let zeros = replicate LOAD_UNROLL 0;
          loc = \<lparr>local_mean = zeros, local_std = zeros,
                 local_gamma_grad = zeros, local_beta_grad = zeros\<rparr>
      in do {
        (l, loc1, s1) \<leftarrow> GammaBeta_unrolled LOAD_UNROLL gamma_addto beta_addto nthread nbatch
                           nchannel in_data out_grad mean_data std_data gamma_grad beta_grad
                           (LOAD_UNROLL * tid) (loc, s);
        (loc2, s2) \<leftarrow> GammaBeta_rest no_gamma no_beta gamma_addto beta_addto nbatch nchannel
                        in_data out_grad mean_data std_data gamma_grad beta_grad l (loc1, s1);
        Some s2
      })"

definition LayerNormFusedBackwardKernel_GammaBeta ::
  "nat \<Rightarrow> bool \<Rightarrow> bool \<Rightarrow> bool \<Rightarrow> bool \<Rightarrow> nat \<Rightarrow> nat \<Rightarrow> nat \<Rightarrow> 'b \<Rightarrow> 'b \<Rightarrow> 'b \<Rightarrow> 'b
     \<Rightarrow> 'b option \<Rightarrow> 'b option \<Rightarrow> 'b store \<Rightarrow> 'b store option" where
  "LayerNormFusedBackwardKernel_GammaBeta LOAD_UNROLL gamma_addto beta_addto no_gamma no_beta
       nthread nbatch nchannel in_data out_grad mean_data std_data gamma_grad beta_grad s =
     for_each
       (GammaBeta_thread LOAD_UNROLL gamma_addto beta_addto no_gamma no_beta nthread nbatch
          nchannel in_data out_grad mean_data std_data gamma_grad beta_grad)
       [0..<nthread] s"

subsection \<open>\<^verbatim>\<open>LayerNormFusedBackwardKernel_Data\<close>\<close>

text \<open>
  The two running sums of a thread are the pair \<open>(sum_val0, sum_val1)\<close>. The body of the
  summation loops for the channel index \<open>j\<close> of the row \<open>bid\<close>:
\<close>

definition Data_accum ::
  "real list \<Rightarrow> real list \<Rightarrow> real list \<Rightarrow> nat \<Rightarrow> nat \<Rightarrow> real \<Rightarrow> real \<Rightarrow> nat \<Rightarrow> real \<times> real
     \<Rightarrow> (real \<times> real) option" where
  "Data_accum in_data out_grad gamma bid nchannel mean invstd_eps j acc =
     (case acc of (sum_val0, sum_val1) \<Rightarrow>
        do {
          ele_og \<leftarrow> rd out_grad (bid * nchannel + j);
          ele_x \<leftarrow> rd in_data (bid * nchannel + j);
          ele_gamma \<leftarrow> rd gamma j;
          Some (sum_val0 + ele_og * ele_gamma * invstd_eps,
                sum_val1 + ele_og * ele_gamma * (ele_x - mean) * invstd_eps * invstd_eps)
        })"

function Data_unrolled ::
  "nat \<Rightarrow> nat \<Rightarrow> real list \<Rightarrow> real list \<Rightarrow> real list \<Rightarrow> nat \<Rightarrow> nat \<Rightarrow> real \<Rightarrow> real \<Rightarrow> nat
     \<Rightarrow> real \<times> real \<Rightarrow> (nat \<times> real \<times> real) option" where
  "Data_unrolled LOAD_UNROLL nthread in_data out_grad gamma bid nchannel mean invstd_eps l acc =
     (if nthread * LOAD_UNROLL = 0 then None
      else if l + LOAD_UNROLL - 1 < nchannel then
        do {
          acc1 \<leftarrow> for_each (\<lambda>i. Data_accum in_data out_grad gamma bid nchannel mean invstd_eps
                                   (l + i)) [0..<LOAD_UNROLL] acc;
          Data_unrolled LOAD_UNROLL nthread in_data out_grad gamma bid nchannel mean invstd_eps
            (l + nthread * LOAD_UNROLL) acc1
        }
      else Some (l, acc))"
  by pat_completeness auto
termination
proof (relation "measure (\<lambda>(LOAD_UNROLL, nthread, in_data, out_grad, gamma, bid, nchannel,
                            mean, invstd_eps, l, acc). nchannel - l)", goal_cases)
  case 1
  show ?case by simp
next
  case prems: (2 LOAD_UNROLL nthread in_data out_grad gamma bid nchannel mean invstd_eps l)
  from prems(1) have step: "0 < nthread * LOAD_UNROLL" by simp
  from prems(1,2) have "l < nchannel" by (cases LOAD_UNROLL) simp_all
  with step have "nchannel - (l + nthread * LOAD_UNROLL) < nchannel - l" by linarith
  then show ?case by simp
qed

function Data_rest ::
  "real list \<Rightarrow> real list \<Rightarrow> real list \<Rightarrow> nat \<Rightarrow> nat \<Rightarrow> real \<Rightarrow> real \<Rightarrow> nat \<Rightarrow> real \<times> real
     \<Rightarrow> (real \<times> real) option" where
  "Data_rest in_data out_grad gamma bid nchannel mean invstd_eps l acc =
     (if l < nchannel then
        do {
          acc1 \<leftarrow> Data_accum in_data out_grad gamma bid nchannel mean invstd_eps l acc;
          Data_rest in_data out_grad gamma bid nchannel mean invstd_eps (l + 1) acc1
        }
      else Some acc)"
  by pat_completeness auto
termination
  by (relation "measure (\<lambda>(in_data, out_grad, gamma, bid, nchannel, mean, invstd_eps, l, acc).
                            nchannel - l)") auto

text \<open>
  The sums of one thread before the reductions. In this kernel \<^verbatim>\<open>tid = threadIdx.x\<close>,
  while the stride of the first loop is \<open>nthread * LOAD_UNROLL\<close> with
  \<open>nthread = blockDim.x * blockDim.y\<close>.
\<close>

definition Data_thread_sums ::
  "nat \<Rightarrow> nat \<Rightarrow> real list \<Rightarrow> real list \<Rightarrow> real list \<Rightarrow> nat \<Rightarrow> nat \<Rightarrow> real \<Rightarrow> real \<Rightarrow> nat
     \<Rightarrow> (real \<times> real) option" where
  "Data_thread_sums LOAD_UNROLL nthread in_data out_grad gamma bid nchannel mean invstd_eps tid =
     do {
       (l, acc) \<leftarrow> Data_unrolled LOAD_UNROLL nthread in_data out_grad gamma bid nchannel
                      mean invstd_eps (LOAD_UNROLL * tid) (0, 0);
       Data_rest in_data out_grad gamma bid nchannel mean invstd_eps l acc
     }"

text \<open>
  The intra-warp all-reduce \<^verbatim>\<open>for (mask = blockDim.x / 2; mask > 0; mask /= 2)\<close>: every
  lane adds the sums of the lane \<open>threadIdx.x XOR mask\<close> of its warp (\<^verbatim>\<open>WARP_SHFL_XOR\<close>);
  the loop variable \<^verbatim>\<open>mask\<close> is \<open>lane_mask\<close> here.
  The registers of the block are the list of the sums of its threads, at the index
  \<open>threadIdx.x + 32 * threadIdx.y\<close>.
\<close>

function WarpXorReduce :: "nat \<Rightarrow> (real \<times> real) list \<Rightarrow> (real \<times> real) list" where
  "WarpXorReduce lane_mask lanes =
     (if lane_mask > 0 then
        WarpXorReduce (lane_mask div 2)
          (map (\<lambda>t. let src = 32 * (t div 32) + ((t mod 32) XOR lane_mask)
                    in (fst (lanes ! t) + fst (lanes ! src), snd (lanes ! t) + snd (lanes ! src)))
               [0..<length lanes])
      else lanes)"
  by pat_completeness auto
termination
  by (relation "measure (\<lambda>(lane_mask, lanes). lane_mask)") auto

text \<open>
  The inter-warp all-reduce. \<^verbatim>\<open>sum_val0_buf\<close> starts at element 0 of the shared memory
  and \<^verbatim>\<open>sum_val1_buf\<close> at element \<open>blockDim.y div 2 * 32\<close>; the launch states no size for
  the shared memory, and the model gives it the \<open>2 * (blockDim.y div 2) * 32\<close> elements
  the kernel addresses.
\<close>

definition DataStore :: "nat \<Rightarrow> nat \<Rightarrow> (real \<times> real) list \<Rightarrow> nat \<Rightarrow> real list \<Rightarrow> real list" where
  "DataStore blockDim_y offset lanes t buf =
     (let idx = (t div 32 - offset) * 32 + t mod 32
      in buf[idx := fst (lanes ! t), blockDim_y div 2 * 32 + idx := snd (lanes ! t)])"

definition DataLoad ::
  "nat \<Rightarrow> real list \<Rightarrow> nat \<Rightarrow> (real \<times> real) list \<Rightarrow> (real \<times> real) list" where
  "DataLoad blockDim_y buf t lanes =
     (let idx = t div 32 * 32 + t mod 32
      in lanes[t := (fst (lanes ! t) + buf ! idx,
                     snd (lanes ! t) + buf ! (blockDim_y div 2 * 32 + idx))])"

function DataInterWarp ::
  "nat \<Rightarrow> nat \<Rightarrow> (real \<times> real) list \<Rightarrow> real list \<Rightarrow> (real \<times> real) list \<times> real list" where
  "DataInterWarp blockDim_y offset lanes buf =
     (if offset > 0 then
        let buf1 = fold (DataStore blockDim_y offset lanes) [offset * 32..<2 * offset * 32] buf;
            lanes1 = fold (DataLoad blockDim_y buf1) [0..<offset * 32] lanes
        in DataInterWarp blockDim_y (offset div 2) lanes1 buf1
      else (lanes, buf))"
  by pat_completeness auto
termination
  by (relation "measure (\<lambda>(blockDim_y, offset, lanes, buf). offset)") auto

definition DataBroadcast ::
  "nat \<Rightarrow> (real \<times> real) list \<Rightarrow> real list \<Rightarrow> (real \<times> real) list" where
  "DataBroadcast blockDim_y lanes buf =
     (let buf1 = fold (\<lambda>t b. b[t := fst (lanes ! t), blockDim_y div 2 * 32 + t := snd (lanes ! t)])
                   [0..<32] buf
      in map (\<lambda>t. if t div 32 \<noteq> 0
                  then (buf1 ! (t mod 32), buf1 ! (blockDim_y div 2 * 32 + t mod 32))
                  else lanes ! t)
             [0..<length lanes])"

definition DataReduce :: "nat \<Rightarrow> nat \<Rightarrow> (real \<times> real) list \<Rightarrow> (real \<times> real) list" where
  "DataReduce blockDim_y nchannel lanes0 =
     (let lanes1 = WarpXorReduce (32 div 2) lanes0;
          lanes2 = (if blockDim_y > 1 then
                      (case DataInterWarp blockDim_y (blockDim_y div 2) lanes1
                              (replicate (2 * (blockDim_y div 2) * 32) 0) of
                         (lanes, buf) \<Rightarrow> DataBroadcast blockDim_y lanes buf)
                    else lanes1)
      in map (\<lambda>(sum_val0, sum_val1). (sum_val0 / real nchannel, sum_val1 / real nchannel)) lanes2)"

text \<open>
  The gradient loop \<^verbatim>\<open>for (int l = tid; l < nchannel; l += nthread)\<close> of one thread. The
  values are read from the store as it is when the thread runs.
\<close>

function Data_write_loop ::
  "bool \<Rightarrow> nat \<Rightarrow> nat \<Rightarrow> nat \<Rightarrow> 'b \<Rightarrow> 'b \<Rightarrow> 'b \<Rightarrow> 'b \<Rightarrow> real \<Rightarrow> real \<Rightarrow> real \<times> real \<Rightarrow> nat
     \<Rightarrow> 'b store \<Rightarrow> 'b store option" where
  "Data_write_loop data_addto nthread nchannel bid in_data out_grad gamma data_grad
       mean invstd_eps acc l s =
     (if nthread = 0 then None
      else if l < nchannel then
        do {
          ele_out_grad \<leftarrow> rd (s out_grad) (bid * nchannel + l);
          ele_x \<leftarrow> rd (s in_data) (bid * nchannel + l);
          ele_gamma \<leftarrow> rd (s gamma) l;
          s1 \<leftarrow> (let v = ele_out_grad * ele_gamma * invstd_eps - fst acc
                           - (ele_x - mean) * invstd_eps * snd acc
                 in if data_addto then store_add s data_grad (bid * nchannel + l) v
                    else store_set s data_grad (bid * nchannel + l) v);
          Data_write_loop data_addto nthread nchannel bid in_data out_grad gamma data_grad
            mean invstd_eps acc (l + nthread) s1
        }
      else Some s)"
  by pat_completeness auto
termination
  by (relation "measure (\<lambda>(data_addto, nthread, nchannel, bid, in_data, out_grad, gamma,
                            data_grad, mean, invstd_eps, acc, l, s). nchannel - l)") auto

text \<open>
  The kernel for the block \<open>bid\<close>. With two warps, both run the gradient loop over the
  same elements; the model runs the threads in the order of their index.
\<close>

definition LayerNormFusedBackwardKernel_Data_block ::
  "nat \<Rightarrow> bool \<Rightarrow> nat \<Rightarrow> nat \<Rightarrow> nat \<Rightarrow> 'b \<Rightarrow> 'b \<Rightarrow> 'b \<Rightarrow> 'b \<Rightarrow> 'b \<Rightarrow> 'b \<Rightarrow> nat \<Rightarrow> 'b store
     \<Rightarrow> 'b store option" where
  "LayerNormFusedBackwardKernel_Data_block LOAD_UNROLL data_addto blockDim_y nbatch nchannel
       in_data out_grad mean_data std_data gamma data_grad bid s =
     (if bid < nbatch then
        let nthread = 32 * blockDim_y
        in do {
          mean \<leftarrow> rd (s mean_data) bid;
          sd \<leftarrow> rd (s std_data) bid;
          lanes \<leftarrow> those (map (\<lambda>t. Data_thread_sums LOAD_UNROLL nthread (s in_data) (s out_grad)
                                      (s gamma) bid nchannel mean (1 / sd) (t mod 32))
                               [0..<nthread]);
          reduced \<leftarrow> Some (DataReduce blockDim_y nchannel lanes);
          for_each
            (\<lambda>t. Data_write_loop data_addto nthread nchannel bid in_data out_grad gamma data_grad
                    mean (1 / sd) (reduced ! t) (t mod 32))
            [0..<nthread] s
        }
      else Some s)"

definition LayerNormFusedBackwardKernel_Data ::
  "nat \<Rightarrow> bool \<Rightarrow> nat \<times> nat \<Rightarrow> nat \<Rightarrow> nat \<Rightarrow> nat \<Rightarrow> 'b \<Rightarrow> 'b \<Rightarrow> 'b \<Rightarrow> 'b \<Rightarrow> 'b \<Rightarrow> 'b \<Rightarrow> 'b store
     \<Rightarrow> 'b store option" where
  "LayerNormFusedBackwardKernel_Data LOAD_UNROLL data_addto dimGrid blockDim_y nbatch nchannel
       in_data out_grad mean_data std_data gamma data_grad s =
     for_each
       (LayerNormFusedBackwardKernel_Data_block LOAD_UNROLL data_addto blockDim_y nbatch nchannel
          in_data out_grad mean_data std_data gamma data_grad)
       (grid_blocks (fst dimGrid) (snd dimGrid)) s"

subsection \<open>The host side of the backward pass\<close>

datatype OpReqType = kNullOp | kWriteTo | kWriteInplace | kAddTo

text \<open>
  A failed \<^verbatim>\<open>CHECK\<close> ends the call; a kernel without a defined result is a device fault.
\<close>

datatype failure = CHECK_failed | device_fault

definition launch :: "'a option \<Rightarrow> failure + 'a" where
  "launch r = (case r of None \<Rightarrow> Inl device_fault | Some s \<Rightarrow> Inr s)"

text \<open>
  \<^verbatim>\<open>LayerNormGradGPUContig\<close>. The inputs are the names of the five input buffers, checked
  for their number; the outputs and the requests are the triples for \<^verbatim>\<open>data_grad\<close>,
  \<^verbatim>\<open>gamma_grad\<close> and \<^verbatim>\<open>beta_grad\<close>. The identifier \<^verbatim>\<open>beta\<close> in the line that sets
  \<^verbatim>\<open>beta_grad_ptr\<close> is not declared in this function; the buffer it names is the
  parameter \<open>beta\<close>. The pointer handed to the kernel for the scale gradient is that of
  the input \<^verbatim>\<open>gamma\<close>, as the source has it. \<open>shape\<close> is the shape of \<^verbatim>\<open>in_data\<close>.
\<close>

definition LayerNormGradGPUContig ::
  "nat \<Rightarrow> nat \<Rightarrow> bool \<Rightarrow> bool \<Rightarrow> 'b \<Rightarrow> nat list \<Rightarrow> 'b list \<Rightarrow> OpReqType \<times> OpReqType \<times> OpReqType
     \<Rightarrow> 'b \<times> 'b \<times> 'b \<Rightarrow> 'b store \<Rightarrow> failure + 'b store" where
  "LayerNormGradGPUContig kMaxGridDim kBaseGridNum no_gamma no_beta beta shape inputs req outputs s =
     (if length inputs \<noteq> 5 then Inl CHECK_failed
      else
        let out_grad = inputs ! 0;
            in_data = inputs ! 1;
            gamma = inputs ! 2;
            mean_data = inputs ! 3;
            std_data = inputs ! 4
        in case outputs of (data_grad, gamma_grad, beta_grad) \<Rightarrow>
           case req of (data_req, gamma_req, beta_req) \<Rightarrow>
           let nbatch = prod_list (butlast shape);
               nchannel = last shape
           in if data_req = kWriteInplace then Inl CHECK_failed
              else if gamma_req = kWriteInplace then Inl CHECK_failed
              else if beta_req = kWriteInplace then Inl CHECK_failed
              else
                let LOAD_UNROLL = 4;
                    r1 = (if gamma_req \<noteq> kNullOp \<or> beta_req \<noteq> kNullOp then
                            let gamma_grad_ptr = (if gamma_req \<noteq> kNullOp then Some gamma else None);
                                beta_grad_ptr = (if beta_req \<noteq> kNullOp then Some beta else None)
                            in if gamma_req = kAddTo \<and> beta_req \<noteq> kAddTo then
                                 launch (LayerNormFusedBackwardKernel_GammaBeta LOAD_UNROLL True False
                                   no_gamma no_beta (32 * 4) nbatch nchannel in_data out_grad
                                   mean_data std_data gamma_grad_ptr beta_grad_ptr s)
                               else if gamma_req \<noteq> kAddTo \<and> beta_req = kAddTo then
                                 launch (LayerNormFusedBackwardKernel_GammaBeta LOAD_UNROLL False True
                                   no_gamma no_beta (32 * 4) nbatch nchannel in_data out_grad
                                   mean_data std_data gamma_grad_ptr beta_grad_ptr s)
                               else if gamma_req = kAddTo \<and> beta_req = kAddTo then
                                 launch (LayerNormFusedBackwardKernel_GammaBeta LOAD_UNROLL True True
                                   no_gamma no_beta (32 * 4) nbatch nchannel in_data out_grad
                                   mean_data std_data gamma_grad_ptr beta_grad_ptr s)
                               else
                                 launch (LayerNormFusedBackwardKernel_GammaBeta LOAD_UNROLL False False
                                   no_gamma no_beta (32 * 4) nbatch nchannel in_data out_grad
                                   mean_data std_data gamma_grad_ptr beta_grad_ptr s)
                          else Inr s)
                in case r1 of
                     Inl e \<Rightarrow> Inl e
                   | Inr s1 \<Rightarrow>
                       let dimGrid = launch_grid kMaxGridDim kBaseGridNum nbatch;
                           dimBlock_y = (if nchannel \<le> 32 then 1 else 2)
                       in if data_req \<noteq> kNullOp then
                            (if data_req = kAddTo then
                               launch (LayerNormFusedBackwardKernel_Data LOAD_UNROLL True dimGrid
                                 dimBlock_y nbatch nchannel in_data out_grad mean_data std_data
                                 gamma data_grad s1)
                             else
                               launch (LayerNormFusedBackwardKernel_Data LOAD_UNROLL False dimGrid
                                 dimBlock_y nbatch nchannel in_data out_grad mean_data std_data
                                 gamma data_grad s1))
                          else Inr s1)"

text \<open>
  \<^verbatim>\<open>LayerNormGradCompute<gpu>\<close>. \<^verbatim>\<open>LayerNormGradComputeGeneral\<close> is outside the given
  sources and is the parameter \<open>general\<close>. \<open>axis\<close> is \<^verbatim>\<open>param.axis\<close> and the number of
  dimensions of \<^verbatim>\<open>inputs[0]\<close> is the length of \<open>shape\<close>.
\<close>

definition LayerNormGradCompute ::
  "('b store \<Rightarrow> failure + 'b store) \<Rightarrow> nat \<Rightarrow> nat \<Rightarrow> bool \<Rightarrow> bool \<Rightarrow> 'b \<Rightarrow> int \<Rightarrow> nat list \<Rightarrow> 'b list
     \<Rightarrow> OpReqType \<times> OpReqType \<times> OpReqType \<Rightarrow> 'b \<times> 'b \<times> 'b \<Rightarrow> 'b store \<Rightarrow> failure + 'b store" where
  "LayerNormGradCompute general kMaxGridDim kBaseGridNum no_gamma no_beta beta axis shape
       inputs req outputs s =
     (if fst req = kNullOp then Inr s
      else if fst req = kAddTo then Inl CHECK_failed
      else
        let ndim = int (length shape);
            axis1 = (if axis < 0 then axis + ndim else axis)
        in if \<not> (axis1 \<ge> 0 \<and> axis1 < ndim) then Inl CHECK_failed
           else if axis1 = ndim - 1 then
             LayerNormGradGPUContig kMaxGridDim kBaseGridNum no_gamma no_beta beta shape
               inputs req outputs s
           else general s)"

text \<open>The names of the buffers of one backward call, and of the buffer \<^verbatim>\<open>beta\<close>.\<close>

datatype blob =
  OutGrad | InData | Gamma | MeanData | StdData | DataGrad | GammaGrad | BetaGrad | Beta

text \<open>
  Two backward calls used as examples. In the first, of four rows and four channels, the
  row \<open>b\<close> of the input is \<open>[m - d, m + d, m - d, m + d]\<close> for the mean \<open>m\<close> and the standard
  deviation \<open>d\<close> saved for that row; in the second, of two rows and two channels, the
  rows are \<open>[1, 3]\<close> and \<open>[2, 6]\<close>. The output gradient is 1 everywhere and the scale is 1.
\<close>

definition backward_example :: "blob store" where
  "backward_example =
     (\<lambda>_. [])
     (OutGrad := [1, 1, 1, 1, 1, 1, 1, 1, 1, 1, 1, 1, 1, 1, 1, 1],
      InData := [1, 3, 1, 3, 2, 6, 2, 6, 5, 7, 5, 7, 6, 10, 6, 10],
      Gamma := [1, 1, 1, 1],
      MeanData := [2, 4, 6, 8],
      StdData := [1, 2, 1, 2],
      DataGrad := [0, 0, 0, 0, 0, 0, 0, 0, 0, 0, 0, 0, 0, 0, 0, 0],
      GammaGrad := [0, 0, 0, 0],
      BetaGrad := [0, 0, 0, 0],
      Beta := [0, 0, 0, 0])"

definition backward_example_small :: "blob store" where
  "backward_example_small =
     (\<lambda>_. [])
     (OutGrad := [1, 1, 1, 1],
      InData := [1, 3, 2, 6],
      Gamma := [1, 1],
      MeanData := [2, 4],
      StdData := [1, 2],
      DataGrad := [0, 0, 0, 0],
      GammaGrad := [0, 0],
      BetaGrad := [0, 0],
      Beta := [0, 0])"

text \<open>
  The equations of the loops are unfolded on request only, since they apply to their own
  right-hand sides.
\<close>

declare BlockWelfordOnlineSum_unrolled.simps [simp del]
  BlockWelfordOnlineSum_rest.simps [simp del]
  InterWarpReduce.simps [simp del]
  ForwardOutputLoop.simps [simp del]
  GammaBeta_unrolled.simps [simp del]
  GammaBeta_rest.simps [simp del]
  Data_unrolled.simps [simp del]
  Data_rest.simps [simp del]
  WarpXorReduce.simps [simp del]
  DataInterWarp.simps [simp del]
  Data_write_loop.simps [simp del]

section \<open>What the triples stand for\<close>

text \<open>
  The triple that summarises a finite multiset of values: its mean, the sum of the
  squared deviations from the mean, and its size. The empty multiset is summarised by
  the zero triple.
\<close>

definition mset_mean :: "real multiset \<Rightarrow> real" where
  "mset_mean M = sum_mset M / real (size M)"

definition mset_m2 :: "real multiset \<Rightarrow> real" where
  "mset_m2 M = (\<Sum>x\<in>#M. (x - mset_mean M)\<^sup>2)"

definition summary :: "real multiset \<Rightarrow> triple" where
  "summary M = (if M = {#} then zero_triple else (mset_mean M, mset_m2 M, real (size M)))"



text \<open>
  A way of merging a collection of partitions: a binary tree whose leaves are the
  partitions and whose inner nodes are calls of \<^verbatim>\<open>ChanMergePartition\<close>, the left
  subtree being merged into the right one.
\<close>

datatype grouping = Part "real multiset" | Merge grouping grouping

fun merged :: "grouping \<Rightarrow> triple" where
  "merged (Part M) = summary M"
| "merged (Merge l r) = ChanMergePartition (merged l) (merged r)"

fun values_of :: "grouping \<Rightarrow> real multiset" where
  "values_of (Part M) = M"
| "values_of (Merge l r) = values_of l + values_of r"

text \<open>
  The values a lane has merged after some rounds of the intra-warp loop: those of the
  \<open>n\<close> lanes of its warp that follow it cyclically, itself included.
\<close>

definition lane_window :: "real multiset list \<Rightarrow> nat \<Rightarrow> nat \<Rightarrow> real multiset" where
  "lane_window Ms tid n = (\<Sum>j = 0..<n. Ms ! (32 * (tid div 32) + (tid mod 32 + j) mod 32))"

text \<open>
  The parameter gradients as the specification states them, on row-major buffers:
  the statistics are those of the row \<open>b\<close> of each summand.
\<close>

definition scaleGrad_spec ::
  "nat \<Rightarrow> nat \<Rightarrow> real list \<Rightarrow> real list \<Rightarrow> real list \<Rightarrow> real list \<Rightarrow> nat \<Rightarrow> real" where
  "scaleGrad_spec batchCount channelCount input outGrad mean std c =
     (\<Sum>b\<leftarrow>[0..<batchCount].
        (input ! (b * channelCount + c) - mean ! b) * (1 / std ! b)
        * outGrad ! (b * channelCount + c))"

definition shiftGrad_spec :: "nat \<Rightarrow> nat \<Rightarrow> real list \<Rightarrow> nat \<Rightarrow> real" where
  "shiftGrad_spec batchCount channelCount outGrad c =
     (\<Sum>b\<leftarrow>[0..<batchCount]. outGrad ! (b * channelCount + c))"

section \<open>Arithmetic of the update and merge formulas\<close>

lemma chan_mean_real:
  fixes a b :: real
  assumes "0 < a" "0 < b"
  shows "(SA + SB) / (a + b) = a / (a + b) * (SA / a) + b / (a + b) * (SB / b)"
proof -
  have "a / (a + b) * (SA / a) = SA / (a + b)" "b / (a + b) * (SB / b) = SB / (a + b)"
    using assms by simp_all
  then show ?thesis by (simp add: add_divide_distrib)
qed

lemma chan_m2_real:
  fixes a b :: real
  assumes "0 < a" "0 < b"
  shows "(QA + QB) - (SA + SB)\<^sup>2 / (a + b) =
         (QB - SB\<^sup>2 / b) + (QA - SA\<^sup>2 / a)
         + (SB / b - SA / a) * (SB / b - SA / a) * (a / (a + b)) * (b / (a + b)) * (a + b)"
proof -
  have ab: "a + b \<noteq> 0" "a \<noteq> 0" "b \<noteq> 0" using assms by simp_all
  have "(SB / b - SA / a) * (SB / b - SA / a) * (a / (a + b)) * (b / (a + b)) * (a + b)
        = (SB / b - SA / a)\<^sup>2 * (a * b) / (a + b)"
    using ab by (simp add: power2_eq_square)
  also have "\<dots> = (a * SB - b * SA)\<^sup>2 / (a * b * (a + b))"
  proof -
    have "SB / b - SA / a = (a * SB - b * SA) / (a * b)" using ab by (simp add: field_simps)
    then show ?thesis using ab by (simp add: power_divide power2_eq_square)
  qed
  finally have e: "(SB / b - SA / a) * (SB / b - SA / a) * (a / (a + b)) * (b / (a + b)) * (a + b)
     = (a * SB - b * SA)\<^sup>2 / (a * b * (a + b))" .
  have "SB\<^sup>2 / b + SA\<^sup>2 / a - (SA + SB)\<^sup>2 / (a + b) = (a * SB - b * SA)\<^sup>2 / (a * b * (a + b))"
    using ab assms by (simp add: field_simps power2_eq_square)
  then show ?thesis unfolding e by simp
qed

lemma welford_mean_real:
  fixes n :: real
  assumes "0 < n"
  shows "S / n + (x - S / n) / (n + 1) = (S + x) / (n + 1)"
proof -
  have nz: "n \<noteq> 0" "n + 1 \<noteq> 0" using assms by simp_all
  have "x - S / n = (n * x - S) / n" using nz by (simp add: field_simps)
  then have 1: "(x - S / n) / (n + 1) = (n * x - S) / (n * (n + 1))" by simp
  have 2: "S / n = (S * (n + 1)) / (n * (n + 1))" using nz by simp
  have "S / n + (x - S / n) / (n + 1) = (S * (n + 1) + (n * x - S)) / (n * (n + 1))"
    unfolding 1 by (subst 2) (simp only: add_divide_distrib)
  also have "\<dots> = (n * (S + x)) / (n * (n + 1))" by (simp add: algebra_simps)
  also have "\<dots> = (S + x) / (n + 1)" using nz by simp
  finally show ?thesis .
qed

lemma welford_m2_real:
  fixes n :: real
  assumes "0 < n"
  shows "(Q - S\<^sup>2 / n) + (x - S / n) * (x - (S + x) / (n + 1)) = (Q + x\<^sup>2) - (S + x)\<^sup>2 / (n + 1)"
proof -
  have nz: "n \<noteq> 0" "n + 1 \<noteq> 0" using assms by simp_all
  have 1: "x - S / n = (n * x - S) / n" using nz by (simp add: field_simps)
  have 2: "x - (S + x) / (n + 1) = (n * x - S) / (n + 1)" using nz by (simp add: field_simps)
  have "(x - S / n) * (x - (S + x) / (n + 1)) = (n * x - S)\<^sup>2 / (n * (n + 1))"
    unfolding 1 2 by (simp add: power2_eq_square)
  moreover have "S\<^sup>2 / n - (S + x)\<^sup>2 / (n + 1) = (S\<^sup>2 * (n + 1) - (S + x)\<^sup>2 * n) / (n * (n + 1))"
    using nz by (simp add: diff_frac_eq)
  moreover have "x\<^sup>2 = (x\<^sup>2 * (n * (n + 1))) / (n * (n + 1))" using nz by simp
  moreover have "(n * x - S)\<^sup>2 = x\<^sup>2 * (n * (n + 1)) + (S\<^sup>2 * (n + 1) - (S + x)\<^sup>2 * n)"
    by (simp add: power2_eq_square algebra_simps)
  ultimately have "(x - S / n) * (x - (S + x) / (n + 1)) = x\<^sup>2 + (S\<^sup>2 / n - (S + x)\<^sup>2 / (n + 1))"
    by (metis add_divide_distrib)
  then show ?thesis by simp
qed

section \<open>Summaries under the update and the merge\<close>

lemma sum_sq_dev:
  "(\<Sum>x\<in>#M. (x - c)\<^sup>2) = (\<Sum>x\<in>#M. x\<^sup>2) - 2 * c * sum_mset M + real (size M) * c\<^sup>2"
  by (induction M) (simp_all add: power2_diff algebra_simps)

lemma mset_m2_alt:
  "M \<noteq> {#} \<Longrightarrow> mset_m2 M = (\<Sum>x\<in>#M. x\<^sup>2) - (sum_mset M)\<^sup>2 / real (size M)"
  unfolding mset_m2_def sum_sq_dev mset_mean_def
  by (simp add: field_simps power2_eq_square)

lemma size_pos_real: "M \<noteq> {#} \<Longrightarrow> 0 < real (size M)"
  by (simp add: nonempty_has_size)

lemma summary_empty: "summary {#} = zero_triple"
  by (simp add: summary_def)

lemma merge_summary: "ChanMergePartition (summary A) (summary B) = summary (A + B)"
proof (cases "A = {#}")
  case True
  then show ?thesis
    by (cases "B = {#}")
       (simp_all add: summary_def ChanMergePartition_def zero_triple_def Let_def
          nonempty_has_size mset_mean_def)
next
  case A: False
  show ?thesis
  proof (cases "B = {#}")
    case True
    then show ?thesis
      using A by (simp add: summary_def ChanMergePartition_def zero_triple_def Let_def
                    nonempty_has_size mset_mean_def)
  next
    case B: False
    note nA = size_pos_real [OF A] and nB = size_pos_real [OF B]
    have AB: "A + B \<noteq> {#}" using A by simp
    have m: "mset_mean (A + B) =
               real (size A) / (real (size A) + real (size B)) * mset_mean A
               + real (size B) / (real (size A) + real (size B)) * mset_mean B"
      using chan_mean_real [OF nA nB] by (simp add: mset_mean_def)
    have s: "mset_m2 (A + B) =
               mset_m2 B + mset_m2 A
               + (mset_mean B - mset_mean A) * (mset_mean B - mset_mean A)
                 * (real (size A) / (real (size A) + real (size B)))
                 * (real (size B) / (real (size A) + real (size B)))
                 * (real (size A) + real (size B))"
      using chan_m2_real [OF nA nB]
      by (simp add: mset_m2_alt [OF A] mset_m2_alt [OF B] mset_m2_alt [OF AB] mset_mean_def)
    have pos: "0 < real (size A) + real (size B)" using nA nB by simp
    show ?thesis
      unfolding summary_def ChanMergePartition_def Let_def using A B AB pos
      by (simp add: m s)
  qed
qed

lemma step_summary: "StepWelfordOnlineSum x (summary M) = summary (add_mset x M)"
proof (cases "M = {#}")
  case True
  then show ?thesis
    by (simp add: summary_def StepWelfordOnlineSum_def zero_triple_def Let_def
          mset_mean_def mset_m2_def)
next
  case M: False
  note n = size_pos_real [OF M]
  have M': "add_mset x M \<noteq> {#}" by simp
  have m: "mset_mean (add_mset x M) = mset_mean M + (x - mset_mean M) / (real (size M) + 1)"
    using welford_mean_real [OF n, of "sum_mset M" x] by (simp add: mset_mean_def add.commute)
  have s: "mset_m2 (add_mset x M) =
             mset_m2 M
             + (x - mset_mean M) * (x - (mset_mean M + (x - mset_mean M) / (real (size M) + 1)))"
    using welford_m2_real [OF n, of "\<Sum>x\<in>#M. x\<^sup>2" "sum_mset M" x]
          welford_mean_real [OF n, of "sum_mset M" x]
    by (simp add: mset_m2_alt [OF M] mset_m2_alt [OF M'] mset_mean_def add.commute)
  show ?thesis
    unfolding summary_def StepWelfordOnlineSum_def Let_def using M
    by (simp add: m s add.commute)
qed



section \<open>The zero triple is a left identity of the merge\<close>

lemma round_even_of_int: "round_even (of_int k) = k"
  by (simp add: round_even_def)

lemma rnd32_zero: "rnd32 0 = Fin 0"
  by (simp add: rnd32_def)

lemma rnd32_pow2:
  "rnd32 (2 ^ n) = (if n < 128 then Fin (2 ^ n) else PInf)"
proof -
  have e: "max \<lfloor>log 2 (2 ^ n :: real)\<rfloor> (- 126) = int n" by simp
  have "(2 :: real) ^ n / 2 powi (int n - 23) = 2 powi 23"
    by (simp add: power_int_diff)
  also have "\<dots> = of_int (2 ^ 23)" by simp
  finally have q: "(2 :: real) ^ n / 2 powi (int n - 23) = of_int (2 ^ 23)" .
  have r: "of_int (round_even ((2 :: real) ^ n / 2 powi (int n - 23))) * 2 powi (int n - 23)
           = (2 :: real) ^ n"
    unfolding q round_even_of_int by (simp add: power_int_diff)
  have p: "(2 :: real) ^ 128 \<le> 2 ^ n \<longleftrightarrow> 128 \<le> n"
    by (rule power_increasing_iff) simp
  have ab: "\<bar>(2 :: real) ^ n\<bar> = 2 ^ n" by simp
  have nz: "(2 :: real) ^ n \<noteq> 0" "(2 :: real) ^ n > 0" by simp_all
  have "rnd32 (2 ^ n) = (if (2 :: real) ^ 128 \<le> 2 ^ n then PInf else Fin (2 ^ n))"
    unfolding rnd32_def Let_def ab e r using nz by (simp only: if_False if_True)
  then show ?thesis
    unfolding p by (simp only: not_less [symmetric] if_not_P if_P split: if_splits) auto
qed

lemma rnd32_one: "rnd32 1 = Fin 1"
  using rnd32_pow2 [of 0] by simp

lemma rnd32_not_NaN: "rnd32 x \<noteq> NaN"
  by (simp add: rnd32_def Let_def)

lemma rnd32_square: "rnd32 (m * m) \<noteq> NInf"
  by (simp add: rnd32_def Let_def zero_less_mult_iff not_less)

text \<open>
  In single precision the zero triple is not a left identity on every triple with a
  positive count. A lane that read the one value \<open>2 ^ 70\<close> holds \<open>(2 ^ 70, 0, 1)\<close>; merging
  the zero triple into it squares the difference of the means, which overflows to an
  infinity, and multiplies the infinity by the weight 0: sigma2 becomes a NaN.
\<close>

theorem ChanMergePartition_zero_left_counterexample:
  "ChanMergePartition_f32 (Fin 0, Fin 0, Fin 0) (Fin (2 ^ 70), Fin 0, Fin 1)
   = (Fin (2 ^ 70), NaN, Fin 1)
   \<and> ChanMergePartition_f32 (Fin 0, Fin 0, Fin 0) (Fin (2 ^ 70), Fin 0, Fin 1)
     \<noteq> (Fin (2 ^ 70), Fin 0, Fin 1)"
proof -
  have a: "rnd32 (2 ^ 70) = Fin (2 ^ 70)" "rnd32 (2 ^ 70 * 2 ^ 70) = PInf"
    using rnd32_pow2 [of 70] rnd32_pow2 [of 140] by simp_all
  show ?thesis
    using a by (simp add: ChanMergePartition_f32_def fsub_def rnd32_zero rnd32_one Let_def)
qed

text \<open>
  Claim C10, amended. The zero triple \<open>(mean = 0, sigma2 = 0, count = 0)\<close> is a left
  identity of \<^verbatim>\<open>ChanMergePartition\<close> in exact arithmetic on every triple whose count is
  positive, and in single precision on every triple of finite values of the format
  whose count is positive and whose squared mean does not overflow: merging it into
  such a triple leaves the mean, sigma2 and count of that triple unchanged, so a lane
  that processed no element does not alter the aggregate there.
\<close>

theorem ChanMergePartition_zero_left:
  "(0 < n \<longrightarrow> ChanMergePartition zero_triple (m, s, n) = (m, s, n))
   \<and> (rnd32 fm = Fin fm \<and> rnd32 fs = Fin fs \<and> rnd32 fn = Fin fn \<and> 0 < fn
        \<and> rnd32 (fm * fm) \<noteq> PInf
      \<longrightarrow> ChanMergePartition_f32 (Fin 0, Fin 0, Fin 0) (Fin fm, Fin fs, Fin fn)
          = (Fin fm, Fin fs, Fin fn))"
proof (intro conjI impI)
  assume "0 < n"
  then show "ChanMergePartition zero_triple (m, s, n) = (m, s, n)"
    by (simp add: ChanMergePartition_def zero_triple_def)
next
  assume h: "rnd32 fm = Fin fm \<and> rnd32 fs = Fin fs \<and> rnd32 fn = Fin fn \<and> 0 < fn
             \<and> rnd32 (fm * fm) \<noteq> PInf"
  then obtain r where r: "rnd32 (fm * fm) = Fin r"
    using rnd32_not_NaN [of "fm * fm"] rnd32_square [of fm] by (cases "rnd32 (fm * fm)") auto
  from h r show "ChanMergePartition_f32 (Fin 0, Fin 0, Fin 0) (Fin fm, Fin fs, Fin fn)
                 = (Fin fm, Fin fs, Fin fn)"
    by (simp add: ChanMergePartition_f32_def fsub_def rnd32_zero rnd32_one Let_def)
qed

theorem ChanMergePartition_zero_left_witness:
  "(0::real) < 3 \<and> ChanMergePartition zero_triple (1, 2, 3) = (1, 2, 3)
   \<and> rnd32 (2 ^ 2) = Fin (2 ^ 2) \<and> rnd32 (2 ^ 1) = Fin (2 ^ 1) \<and> rnd32 (2 ^ 0) = Fin (2 ^ 0)
   \<and> (0::real) < 2 ^ 0 \<and> rnd32 (2 ^ 2 * 2 ^ 2) \<noteq> PInf
   \<and> ChanMergePartition_f32 (Fin 0, Fin 0, Fin 0) (Fin (2 ^ 2), Fin (2 ^ 1), Fin (2 ^ 0))
     = (Fin (2 ^ 2), Fin (2 ^ 1), Fin (2 ^ 0))"
proof -
  have a: "rnd32 (2 ^ 2) = Fin (2 ^ 2)" "rnd32 (2 ^ 1) = Fin (2 ^ 1)"
    "rnd32 (2 ^ 0) = Fin (2 ^ 0)" "rnd32 (2 ^ 4) = Fin (2 ^ 4)"
    using rnd32_pow2 [of 2] rnd32_pow2 [of 1] rnd32_pow2 [of 0] rnd32_pow2 [of 4] by simp_all
  then have b: "rnd32 (2 ^ 2 * 2 ^ 2) \<noteq> PInf" by simp
  from a b ChanMergePartition_zero_left [of 3 1 2 "2 ^ 2" "2 ^ 1" "2 ^ 0"]
  show ?thesis by simp
qed

section \<open>The online accumulator against the two-pass computation\<close>



section \<open>The merge of two partitions\<close>

text \<open>
  Claim C2. For two triples that summarise two finite multisets,
  \<^verbatim>\<open>ChanMergePartition\<close> returns the triple that summarises their union. It does so by
  \<open>totalCount = countA + countB\<close>, \<open>mergedMean = weightA * meanA + weightB * meanB\<close> and
  \<open>mergedM2 = M2A + M2B + (meanB - meanA)\<^sup>2 * weightA * weightB * totalCount\<close> with the
  weights \<open>countA / totalCount\<close> and \<open>countB / totalCount\<close>; whenever the total count
  is not positive, the mean and sigma2 it returns are both zero.
\<close>

theorem ChanMergePartition_union:
  "ChanMergePartition (summary A) (summary B) = summary (A + B)
   \<and> (0 < nA + nB \<longrightarrow>
        ChanMergePartition (mA, sA, nA) (mB, sB, nB)
        = (nA / (nA + nB) * mA + nB / (nA + nB) * mB,
           sA + sB + (mB - mA)\<^sup>2 * (nA / (nA + nB)) * (nB / (nA + nB)) * (nA + nB),
           nA + nB))
   \<and> (\<not> 0 < nC + nD \<longrightarrow>
        fst (ChanMergePartition (mC, sC, nC) (mD, sD, nD)) = 0
        \<and> fst (snd (ChanMergePartition (mC, sC, nC) (mD, sD, nD))) = 0)"
  by (simp add: merge_summary) (simp add: ChanMergePartition_def Let_def power2_eq_square)

theorem ChanMergePartition_union_witness:
  "ChanMergePartition (summary {#1, 3#}) (summary {#8#}) = summary ({#1, 3#} + {#8#})
   \<and> summary ({#1, 3#} + {#8#}) = (4, 26, 3)
   \<and> (0::real) < 2 + 1
   \<and> ChanMergePartition (2, 2, 2) (8, 0, 1) = (4, 26, 3)
   \<and> \<not> (0::real) < 0 + 0
   \<and> fst (ChanMergePartition (5, 7, 0) (6, 8, 0)) = 0
   \<and> fst (snd (ChanMergePartition (5, 7, 0) (6, 8, 0))) = 0"
proof -
  have "summary ({#1, 3#} + {#8#}) = (4, 26, 3)"
    by (simp add: summary_def mset_mean_def mset_m2_def power2_eq_square)
  with ChanMergePartition_union [of "{#1, 3#}" "{#8#}" 2 1 2 2 8 0 0 0 5 7 6 8]
  show ?thesis by (simp add: power2_eq_square)
qed

section \<open>The merge does not depend on order or grouping\<close>

lemma merged_summary: "merged g = summary (values_of g)"
  by (induction g) (simp_all add: merge_summary)

lemma foldl_merge_summary:
  "foldl (\<lambda>acc t. ChanMergePartition t acc) (summary M) (map summary Ms)
   = summary (M + sum_list Ms)"
  by (induction Ms arbitrary: M) (simp_all add: merge_summary ac_simps)

lemma foldr_merge_summary:
  "foldr ChanMergePartition (map summary Ms) (summary M) = summary (sum_list Ms + M)"
  by (induction Ms) (simp_all add: merge_summary ac_simps)

text \<open>
  Claim C7. On triples that summarise finite multisets, \<^verbatim>\<open>ChanMergePartition\<close> is
  commutative and associative in exact arithmetic; merging a collection of such
  triples from the left or from the right gives the same aggregate, and so does any
  other grouping: the aggregate of a grouping is the summary of all its values.
\<close>

theorem ChanMergePartition_assoc_comm:
  "ChanMergePartition (summary A) (summary B) = ChanMergePartition (summary B) (summary A)
   \<and> ChanMergePartition (ChanMergePartition (summary A) (summary B)) (summary C)
     = ChanMergePartition (summary A) (ChanMergePartition (summary B) (summary C))
   \<and> foldl (\<lambda>acc t. ChanMergePartition t acc) zero_triple (map summary Ms)
     = foldr ChanMergePartition (map summary Ms) zero_triple
   \<and> merged g = summary (values_of g)"
proof -
  have "foldl (\<lambda>acc t. ChanMergePartition t acc) zero_triple (map summary Ms)
        = foldr ChanMergePartition (map summary Ms) zero_triple"
    using foldl_merge_summary [of "{#}" Ms] foldr_merge_summary [of Ms "{#}"]
    by (simp add: summary_empty)
  then show ?thesis
    by (simp add: merge_summary merged_summary ac_simps)
qed

section \<open>The intra-warp reduction is an all-reduce\<close>

lemma mod32_wrap:
  fixes a i :: nat
  assumes "a < 32" "i < 32"
  shows "(a + i) mod 32 = (if a + i < 32 then a + i else a + i - 32)"
  using assms by (simp add: mod_if)

lemma rotate_bij: "bij_betw (\<lambda>j. (x + j) mod 32) {0..<32::nat} {0..<32}"
proof -
  have inj: "inj_on (\<lambda>j. (x + j) mod 32) {0..<32::nat}"
  proof (rule inj_onI)
    fix i j :: nat
    assume ij: "i \<in> {0..<32}" "j \<in> {0..<32}" and eq: "(x + i) mod 32 = (x + j) mod 32"
    have a: "x mod 32 < 32" by simp
    from eq have "(x mod 32 + i) mod 32 = (x mod 32 + j) mod 32"
      by (simp only: mod_add_left_eq)
    with ij a show "i = j"
      by (simp add: mod32_wrap split: if_splits)
  qed
  have "(\<lambda>j. (x + j) mod 32) ` {0..<32::nat} \<subseteq> {0..<32}" by auto
  with inj have "(\<lambda>j. (x + j) mod 32) ` {0..<32::nat} = {0..<32}"
    by (intro endo_inj_surj) simp_all
  with inj show ?thesis by (simp add: bij_betw_def)
qed

lemma lane_window_full:
  "lane_window Ms tid 32 = (\<Sum>j = 0..<32. Ms ! (32 * (tid div 32) + j))"
  unfolding lane_window_def
  by (rule sum.reindex_bij_betw [OF rotate_bij, of "\<lambda>j. Ms ! (32 * (tid div 32) + j)" "tid mod 32"])

lemma lane_window_one: "lane_window Ms tid (Suc 0) = Ms ! tid"
  by (simp add: lane_window_def)

lemma lane_window_double:
  "lane_window Ms (32 * (tid div 32) + (tid mod 32 + n) mod 32) n + lane_window Ms tid n
   = lane_window Ms tid (2 * n)"
proof -
  let ?b = "32 * (tid div 32)"
  let ?src = "?b + (tid mod 32 + n) mod 32"
  have d: "?src div 32 = tid div 32" by simp
  have m: "?src mod 32 = (tid mod 32 + n) mod 32" by simp
  have e: "((tid mod 32 + n) mod 32 + j) mod 32 = (tid mod 32 + (j + n)) mod 32" for j
  proof -
    have "((tid mod 32 + n) mod 32 + j) mod 32 = (tid mod 32 + n + j) mod 32"
      by (rule mod_add_left_eq)
    also have "tid mod 32 + n + j = tid mod 32 + (j + n)" by simp
    finally show ?thesis .
  qed
  have "lane_window Ms ?src n = (\<Sum>j = 0..<n. Ms ! (?b + (tid mod 32 + (j + n)) mod 32))"
    unfolding lane_window_def d m e ..
  also have "\<dots> = (\<Sum>j = n..<2 * n. Ms ! (?b + (tid mod 32 + j) mod 32))"
    using sum.shift_bounds_nat_ivl [of "\<lambda>j. Ms ! (?b + (tid mod 32 + j) mod 32)" 0 n n]
    by (simp add: mult_2)
  finally have "lane_window Ms ?src n = (\<Sum>j = n..<2 * n. Ms ! (?b + (tid mod 32 + j) mod 32))" .
  then show ?thesis
    unfolding lane_window_def [of Ms tid]
    by (simp add: add.commute sum.atLeastLessThan_concat)
qed

lemma src_lane_bound:
  fixes tid k :: nat
  assumes "tid < 32 * k"
  shows "32 * (tid div 32) + (tid mod 32 + n) mod 32 < 32 * k"
proof -
  have "tid div 32 < k" using assms by (simp add: div_less_iff_less_mult mult.commute)
  then have "32 * (tid div 32) + 32 \<le> 32 * k" by simp
  moreover have "(tid mod 32 + n) mod 32 < 32" by simp
  ultimately show ?thesis by linarith
qed

lemma WarpMergeRound_summary:
  assumes "length Ms = 32 * k"
  shows "WarpMergeRound l (map (\<lambda>tid. summary (lane_window Ms tid (2 ^ l))) [0..<length Ms])
         = map (\<lambda>tid. summary (lane_window Ms tid (2 ^ Suc l))) [0..<length Ms]"
proof -
  let ?L = "map (\<lambda>tid. summary (lane_window Ms tid (2 ^ l))) [0..<length Ms]"
  have "ChanMergePartition (?L ! (32 * (tid div 32) + (tid mod 32 + 2 ^ l) mod 32)) (?L ! tid)
        = summary (lane_window Ms tid (2 ^ Suc l))" if "tid < length Ms" for tid
  proof -
    from that assms have "32 * (tid div 32) + (tid mod 32 + 2 ^ l) mod 32 < length Ms"
      by (simp add: src_lane_bound)
    with that show ?thesis
      by (simp only: nth_map length_upt diff_zero nth_upt add_0 merge_summary
            lane_window_double power_Suc)
  qed
  then show ?thesis
    unfolding WarpMergeRound_def Let_def by (simp only: length_map length_upt diff_zero) simp
qed

lemma WarpMerge_rounds:
  assumes "length Ms = 32 * k"
  shows "fold WarpMergeRound [0..<n] (map summary Ms)
         = map (\<lambda>tid. summary (lane_window Ms tid (2 ^ n))) [0..<length Ms]"
proof (induction n)
  case 0
  have "map (\<lambda>tid. summary (Ms ! tid)) [0..<length Ms] = map summary (map ((!) Ms) [0..<length Ms])"
    by simp
  then show ?case by (simp add: lane_window_one map_nth)
next
  case (Suc n)
  then show ?case using WarpMergeRound_summary [OF assms, of n] by simp
qed

text \<open>
  The triples the threads of a block hold before the reduction are summaries: each is
  the result of the update steps on the elements the thread read.
\<close>

lemma BlockWelfordOnlineSum_rest_summary:
  "BlockWelfordOnlineSum_rest in_data base nchannel l (summary M) = Some t
   \<Longrightarrow> \<exists>M'. t = summary M'"
proof (induction in_data base nchannel l "summary M" arbitrary: M
       rule: BlockWelfordOnlineSum_rest.induct)
  case (1 in_data base nchannel l)
  show ?case
  proof (cases "l < nchannel")
    case True
    with "1.prems" obtain v where
      "BlockWelfordOnlineSum_rest in_data base nchannel (l + 1) (summary (add_mset v M)) = Some t"
      and "rd in_data (base + l) = Some v"
      by (subst (asm) BlockWelfordOnlineSum_rest.simps)
         (auto simp: step_summary split: bind_splits)
    with "1.hyps" [OF True, of v "add_mset v M"] show ?thesis
      by (simp add: step_summary)
  next
    case False
    with "1.prems" show ?thesis
      by (subst (asm) BlockWelfordOnlineSum_rest.simps) auto
  qed
qed

lemma BlockWelfordOnlineSum_unrolled_summary:
  "BlockWelfordOnlineSum_unrolled nthread in_data base nchannel l (summary M) = Some (l', t)
   \<Longrightarrow> \<exists>M'. t = summary M'"
proof (induction nthread in_data base nchannel l "summary M" arbitrary: M
       rule: BlockWelfordOnlineSum_unrolled.induct)
  case (1 nthread in_data base nchannel l)
  show ?case
  proof (cases "nthread \<noteq> 0 \<and> l + 3 < nchannel")
    case True
    with "1.prems" obtain v0 v1 v2 v3 where
      r: "rd in_data (base + l + 0) = Some v0" "rd in_data (base + l + 1) = Some v1"
         "rd in_data (base + l + 2) = Some v2" "rd in_data (base + l + 3) = Some v3"
      and c: "BlockWelfordOnlineSum_unrolled nthread in_data base nchannel (l + 4 * nthread)
           (summary (add_mset v3 (add_mset v2 (add_mset v1 (add_mset v0 M))))) = Some (l', t)"
      by (subst (asm) BlockWelfordOnlineSum_unrolled.simps)
         (auto simp: step_summary split: bind_splits)
    from True have "nthread \<noteq> 0" "l + 3 < nchannel" by simp_all
    from "1.hyps" [OF this r, of "add_mset v3 (add_mset v2 (add_mset v1 (add_mset v0 M)))"] c
    show ?thesis by (simp add: step_summary)
  next
    case False
    with "1.prems" show ?thesis
      by (subst (asm) BlockWelfordOnlineSum_unrolled.simps) (auto split: if_splits)
  qed
qed

lemma BlockWelfordOnlineSum_summary:
  assumes "BlockWelfordOnlineSum tid nthread in_data base nchannel zero_triple = Some t"
  shows "\<exists>M. t = summary M"
proof -
  from assms obtain l t1 where
    u: "BlockWelfordOnlineSum_unrolled nthread in_data base nchannel (4 * tid) (summary {#})
        = Some (l, t1)"
    and r: "BlockWelfordOnlineSum_rest in_data base nchannel l t1 = Some t"
    by (auto simp: BlockWelfordOnlineSum_def summary_empty split: bind_splits)
  from BlockWelfordOnlineSum_unrolled_summary [OF u] obtain M1 where "t1 = summary M1" ..
  with r BlockWelfordOnlineSum_rest_summary show ?thesis by blast
qed

lemma those_map_Some:
  "those (map f xs) = Some ys \<Longrightarrow> length ys = length xs \<and> (\<forall>i < length xs. f (xs ! i) = Some (ys ! i))"
proof (induction xs arbitrary: ys)
  case Nil
  then show ?case by simp
next
  case (Cons x xs)
  then obtain y ys' where y: "f x = Some y" and ys': "those (map f xs) = Some ys'" and e: "ys = y # ys'"
    by (auto split: option.splits)
  from Cons.IH [OF ys'] y e show ?case
    by (auto simp: nth_Cons split: nat.splits)
qed

lemma BlockLanes_summaries:
  assumes "BlockLanes nthread in_data base nchannel = Some lanes"
  shows "\<exists>Ms. length Ms = nthread \<and> lanes = map summary Ms"
proof -
  from those_map_Some [OF assms [unfolded BlockLanes_def]]
  have len: "length lanes = nthread"
    and each: "\<forall>tid < nthread. BlockWelfordOnlineSum tid nthread in_data base nchannel zero_triple
                 = Some (lanes ! tid)"
    by simp_all
  have "\<forall>tid < nthread. \<exists>M. lanes ! tid = summary M"
    using each BlockWelfordOnlineSum_summary by blast
  then obtain F where F: "\<forall>tid < nthread. lanes ! tid = summary (F tid)" by metis
  have "lanes = map summary (map F [0..<nthread])"
    using len F by (intro nth_equalityI) simp_all
  then show ?thesis by (intro exI [of _ "map F [0..<nthread]"]) simp
qed

text \<open>
  Claim C8. In the intra-warp reduction of the forward kernel, after the five
  exchange-and-merge rounds with the source lane \<open>(threadIdx.x + 2 ^ l) mod 32\<close> for
  \<open>l = 0, \<dots>, 4\<close>, every one of the 32 lanes of a warp holds the aggregate of the triples
  of all 32 lanes of that warp: in exact arithmetic, the same triple on every lane, for
  lanes that hold summaries (as the per-thread sums are). The block may have any number
  \<open>k\<close> of warps; the warp of thread \<open>tid\<close> is the slice of 32 lanes from \<open>32 * (tid div 32)\<close>.
\<close>

theorem WarpMerge_all_reduce:
  assumes "length Ms = 32 * k" "tid < 32 * k"
  shows "WarpMerge (map summary Ms) ! tid
         = summary (sum_list (take 32 (drop (32 * (tid div 32)) Ms)))"
proof -
  let ?b = "32 * (tid div 32)"
  have "tid div 32 < k" using assms(2) by (simp add: div_less_iff_less_mult mult.commute)
  then have b: "?b + 32 \<le> length Ms" using assms(1) by simp
  then have len: "length (take 32 (drop ?b Ms)) = 32" by simp
  have "sum_list (take 32 (drop ?b Ms)) = (\<Sum>j = 0..<32. take 32 (drop ?b Ms) ! j)"
    using sum_list_sum_nth [of "take 32 (drop ?b Ms)"] unfolding len .
  also have "\<dots> = (\<Sum>j = 0..<32. Ms ! (?b + j))"
    using b by (intro sum.cong) simp_all
  finally have "sum_list (take 32 (drop ?b Ms)) = lane_window Ms tid 32"
    by (simp add: lane_window_full)
  moreover have "WarpMerge (map summary Ms) ! tid = summary (lane_window Ms tid 32)"
    using assms by (simp add: WarpMerge_def WarpMerge_rounds [OF assms(1)])
  ultimately show ?thesis by simp
qed

theorem WarpMerge_all_reduce_witness:
  "length (map (\<lambda>j. {#real j#}) [0..<32]) = 32 * 1
   \<and> (5::nat) < 32 * 1
   \<and> WarpMerge (map summary (map (\<lambda>j. {#real j#}) [0..<32])) ! 5
     = summary (sum_list (take 32 (drop (32 * (5 div 32)) (map (\<lambda>j. {#real j#}) [0..<32]))))"
  using WarpMerge_all_reduce [of "map (\<lambda>j. {#real j#}) [0..<32]" 1 5] by simp

section \<open>The forward kernel on the two-by-three example\<close>

lemma upt32:
  "[0..<32] = [0, 1, 2, 3, 4, 5, 6, 7, 8, 9, 10, 11, 12, 13, 14, 15, 16, 17, 18, 19, 20,
               21, 22, 23, 24, 25, 26, 27, 28, 29, 30, 31]"
  by code_simp

lemma example_row0:
  "map_option (BlockReduce 1 3) (BlockLanes 32 [0, 1, 2, 3, 4, 5] 0 3) = Some (1, 2 / 3)"
  by code_simp

lemma example_row1:
  "map_option (BlockReduce 1 3) (BlockLanes 32 [0, 1, 2, 3, 4, 5] 3 3) = Some (4, 2 / 3)"
  by code_simp

lemma example_out0:
  "for_each (ForwardOutputLoop 32 3 0 [0, 1, 2, 3, 4, 5] None None r 1) [0..<32]
     [a0, a1, a2, a3, a4, a5]
   = Some [r * (0 - 1), r * (1 - 1), r * (2 - 1), a3, a4, a5]"
  unfolding upt32
  by (simp add: ForwardOutputLoop.simps ForwardElement_def rd_def wr_def)

lemma example_out1:
  "for_each (ForwardOutputLoop 32 3 3 [0, 1, 2, 3, 4, 5] None None r 4) [0..<32]
     [a0, a1, a2, a3, a4, a5]
   = Some [a0, a1, a2, r * (3 - 4), r * (4 - 4), r * (5 - 4)]"
  unfolding upt32
  by (simp add: ForwardOutputLoop.simps ForwardElement_def rd_def wr_def)

lemma example_block0:
  "LayerNormFusedForwardKernelContig_block 1 0 2 3 eps [0, 1, 2, 3, 4, 5] None None
     ([a0, a1, a2, a3, a4, a5], [m0, m1], [s0, s1])
   = Some ([1 / sqrt (2 / 3 + eps) * (0 - 1), 1 / sqrt (2 / 3 + eps) * (1 - 1),
            1 / sqrt (2 / 3 + eps) * (2 - 1), a3, a4, a5],
           [1, m1], [sqrt (2 / 3 + eps), s1])"
proof -
  obtain L where L: "BlockLanes 32 [0, 1, 2, 3, 4, 5] 0 3 = Some L"
    and R: "BlockReduce 1 3 L = (1, 2 / 3)"
    using example_row0 by auto
  show ?thesis
    unfolding LayerNormFusedForwardKernelContig_block_def
    using L R example_out0 [of "1 / sqrt (2 / 3 + eps)"]
    by (simp add: wr_def Let_def)
qed

lemma example_block1:
  "LayerNormFusedForwardKernelContig_block 1 1 2 3 eps [0, 1, 2, 3, 4, 5] None None
     ([a0, a1, a2, a3, a4, a5], [m0, m1], [s0, s1])
   = Some ([a0, a1, a2, 1 / sqrt (2 / 3 + eps) * (3 - 4), 1 / sqrt (2 / 3 + eps) * (4 - 4),
            1 / sqrt (2 / 3 + eps) * (5 - 4)],
           [m0, 4], [s0, sqrt (2 / 3 + eps)])"
proof -
  obtain L where L: "BlockLanes 32 [0, 1, 2, 3, 4, 5] 3 3 = Some L"
    and R: "BlockReduce 1 3 L = (4, 2 / 3)"
    using example_row1 by auto
  show ?thesis
    unfolding LayerNormFusedForwardKernelContig_block_def
    using L R example_out1 [of "1 / sqrt (2 / 3 + eps)"]
    by (simp add: wr_def Let_def)
qed

lemma example_forward:
  "LayerNormGPUContig 65535 1024 [2, 3] eps [0, 1, 2, 3, 4, 5] None None
     ([a0, a1, a2, a3, a4, a5], [m0, m1], [s0, s1])
   = Some ([1 / sqrt (2 / 3 + eps) * (0 - 1), 1 / sqrt (2 / 3 + eps) * (1 - 1),
            1 / sqrt (2 / 3 + eps) * (2 - 1), 1 / sqrt (2 / 3 + eps) * (3 - 4),
            1 / sqrt (2 / 3 + eps) * (4 - 4), 1 / sqrt (2 / 3 + eps) * (5 - 4)],
           [1, 4], [sqrt (2 / 3 + eps), sqrt (2 / 3 + eps)])"
proof -
  have "grid_blocks 2 1 = [0, 1]" by code_simp
  then have g: "grid_blocks 2 (Suc 0) = [0, Suc 0]" by simp
  show ?thesis
    unfolding LayerNormGPUContig_def LayerNormFusedForwardKernelContig_def launch_grid_def
    using example_block0 [of eps] example_block1 [of eps]
    by (simp add: g Let_def)
qed

lemma example_invstd:
  "\<bar>1 / sqrt (2 / 3 + 1 / 100000) - 12247 / 10000\<bar> < (1 / 20000 :: real)"
proof -
  have lo: "(81650 / 100000)\<^sup>2 < (2 / 3 + 1 / 100000 :: real)"
    by (simp add: power2_eq_square)
  have hi: "(2 / 3 + 1 / 100000 :: real) < (81651 / 100000)\<^sup>2"
    by (simp add: power2_eq_square)
  have 1: "81650 / 100000 < sqrt (2 / 3 + 1 / 100000)"
    using lo by (rule real_less_rsqrt)
  have 2: "sqrt (2 / 3 + 1 / 100000) < 81651 / 100000"
    using hi by (intro real_less_lsqrt) simp_all
  have "1 / sqrt (2 / 3 + 1 / 100000) < 1 / (81650 / 100000)"
    using 1 by (intro divide_strict_left_mono) simp_all
  moreover have "1 / (81651 / 100000) < 1 / sqrt (2 / 3 + 1 / 100000)"
    using 1 2 by (intro divide_strict_left_mono) simp_all
  ultimately show ?thesis by (simp add: abs_less_iff)
qed

text \<open>
  The means the kernel saves for the rows \<open>[0, 1, 2]\<close> and \<open>[3, 4, 5]\<close> are not \<open>[1, 2]\<close>:
  the second row has the mean 4.
\<close>

theorem forward_example_means_counterexample:
  "map_option (fst \<circ> snd)
     (LayerNormGPUContig 65535 1024 [2, 3] (1 / 100000) [0, 1, 2, 3, 4, 5] None None
        ([0, 0, 0, 0, 0, 0], [0, 0], [0, 0]))
   \<noteq> Some [1, 2]"
  by (simp add: example_forward)

text \<open>
  Claim C9, with the means amended. For \<open>batchCount = 2\<close>, \<open>channelCount = 3\<close>, the input
  \<open>[[0, 1, 2], [3, 4, 5]]\<close>, scale and shift absent (null) and \<open>epsilon = 1e-5\<close>, the
  forward kernel writes the row means \<open>[1, 4]\<close> and the row standard deviations
  \<open>sqrt (2 / 3 + 1e-5)\<close> into the saved-statistics buffers (population variances
  \<open>[2 / 3, 2 / 3]\<close>) and produces the normalised output, each element equal to
  \<open>invStd * (input[c] - mean)\<close>, which is \<open>[[-1.2247, 0, 1.2247], [-1.2247, 0, 1.2247]]\<close> to
  within \<open>0.00005\<close>. The launch constants \<^verbatim>\<open>kMaxGridDim\<close> and \<^verbatim>\<open>kBaseGridNum\<close> are taken
  as 65535 and 1024; the contents of the output buffers before the call are arbitrary.
\<close>

theorem forward_example:
  "LayerNormGPUContig 65535 1024 [2, 3] (1 / 100000) [0, 1, 2, 3, 4, 5] None None
     ([a0, a1, a2, a3, a4, a5], [m0, m1], [s0, s1])
   = Some ([1 / sqrt (2 / 3 + 1 / 100000) * (0 - 1), 1 / sqrt (2 / 3 + 1 / 100000) * (1 - 1),
            1 / sqrt (2 / 3 + 1 / 100000) * (2 - 1), 1 / sqrt (2 / 3 + 1 / 100000) * (3 - 4),
            1 / sqrt (2 / 3 + 1 / 100000) * (4 - 4), 1 / sqrt (2 / 3 + 1 / 100000) * (5 - 4)],
           [1, 4], [sqrt (2 / 3 + 1 / 100000), sqrt (2 / 3 + 1 / 100000)])
   \<and> \<bar>1 / sqrt (2 / 3 + 1 / 100000) * (0 - 1) - (- 12247 / 10000)\<bar> < (1 / 20000 :: real)
   \<and> 1 / sqrt (2 / 3 + 1 / 100000) * (1 - 1) = (0 :: real)
   \<and> \<bar>1 / sqrt (2 / 3 + 1 / 100000) * (2 - 1) - 12247 / 10000\<bar> < (1 / 20000 :: real)
   \<and> \<bar>1 / sqrt (2 / 3 + 1 / 100000) * (3 - 4) - (- 12247 / 10000)\<bar> < (1 / 20000 :: real)
   \<and> 1 / sqrt (2 / 3 + 1 / 100000) * (4 - 4) = (0 :: real)
   \<and> \<bar>1 / sqrt (2 / 3 + 1 / 100000) * (5 - 4) - 12247 / 10000\<bar> < (1 / 20000 :: real)"
proof -
  let ?r = "1 / sqrt (2 / 3 + 1 / 100000) :: real"
  have pos: "?r * (2 - 1) = ?r" "?r * (5 - 4) = ?r" by simp_all
  have neg: "\<bar>?r * (0 - 1) - (- 12247 / 10000)\<bar> = \<bar>?r - 12247 / 10000\<bar>"
            "\<bar>?r * (3 - 4) - (- 12247 / 10000)\<bar> = \<bar>?r - 12247 / 10000\<bar>"
    by (simp_all add: abs_minus_commute)
  have zero: "?r * (1 - 1) = 0" "?r * (4 - 4) = 0" by simp_all
  show ?thesis
    unfolding pos neg zero
    using example_forward [of "1 / 100000" a0 a1 a2 a3 a4 a5 m0 m1 s0 s1] example_invstd
    unfolding pos zero
    by blast
qed

section \<open>The backward pass on the examples\<close>

text \<open>
  Claim C3 fails on the code. The kernel reads the saved statistics at the channel index
  (\<^verbatim>\<open>mean_data[l + i]\<close>, \<^verbatim>\<open>std_data[l + i]\<close>) and uses them for every row, while the
  buffers hold one value per row. On the example of four rows and four channels (first
  loop, accumulating into zero) the scale gradient is \<open>[6, 5, -10, -3]\<close> where the
  specified sum is \<open>[-4, 4, -4, 4]\<close>; on the example of two rows and two channels (second
  loop, overwriting) it is \<open>[-1, 1 / 2]\<close> where the specified sum is \<open>[-2, 2]\<close>. The shift
  gradient is the specified sum in both.
\<close>

theorem GammaBeta_statistics_read_by_channel:
  "map_option (\<lambda>s. (s GammaGrad, s BetaGrad))
     (LayerNormFusedBackwardKernel_GammaBeta 4 True True no_gamma no_beta 128 4 4
        InData OutGrad MeanData StdData (Some GammaGrad) (Some BetaGrad) backward_example)
   = Some ([6, 5, - 10, - 3], [4, 4, 4, 4])
   \<and> map (scaleGrad_spec 4 4 (backward_example InData) (backward_example OutGrad)
            (backward_example MeanData) (backward_example StdData)) [0..<4]
     = [- 4, 4, - 4, 4]
   \<and> map (shiftGrad_spec 4 4 (backward_example OutGrad)) [0..<4] = [4, 4, 4, 4]
   \<and> map_option (\<lambda>s. (s GammaGrad, s BetaGrad))
       (LayerNormFusedBackwardKernel_GammaBeta 4 False False False False 128 2 2
          InData OutGrad MeanData StdData (Some GammaGrad) (Some BetaGrad)
          backward_example_small)
     = Some ([- 1, 1 / 2], [2, 2])
   \<and> map (scaleGrad_spec 2 2 (backward_example_small InData) (backward_example_small OutGrad)
            (backward_example_small MeanData) (backward_example_small StdData)) [0..<2]
     = [- 2, 2]
   \<and> map (shiftGrad_spec 2 2 (backward_example_small OutGrad)) [0..<2] = [2, 2]"
  by code_simp

text \<open>
  Claim C4 fails on the code. In the first (unrolled) loop the write-back has no branch
  for the Overwrite mode: on the example of four channels, all handled by that loop,
  buffers seeded with 7 still hold 7 after the kernel ran in Overwrite mode, although
  the gradients it computed are \<open>[6, 5, -10, -3]\<close> and \<open>[4, 4, 4, 4]\<close>. In AccumulateInto
  mode one run adds them to the seed, and a second run adds them again.
\<close>

theorem GammaBeta_unrolled_overwrite_writes_nothing:
  "map_option (\<lambda>s. (s GammaGrad, s BetaGrad))
     (LayerNormFusedBackwardKernel_GammaBeta 4 False False no_gamma no_beta 128 4 4
        InData OutGrad MeanData StdData (Some GammaGrad) (Some BetaGrad)
        (backward_example(GammaGrad := [7, 7, 7, 7], BetaGrad := [7, 7, 7, 7])))
   = Some ([7, 7, 7, 7], [7, 7, 7, 7])
   \<and> map_option (\<lambda>s. (s GammaGrad, s BetaGrad))
       (LayerNormFusedBackwardKernel_GammaBeta 4 True True no_gamma no_beta 128 4 4
          InData OutGrad MeanData StdData (Some GammaGrad) (Some BetaGrad)
          (backward_example(GammaGrad := [7, 7, 7, 7], BetaGrad := [7, 7, 7, 7])))
     = Some ([13, 12, - 3, 4], [11, 11, 11, 11])
   \<and> map_option (\<lambda>s. (s GammaGrad, s BetaGrad))
       (LayerNormFusedBackwardKernel_GammaBeta 4 True True no_gamma no_beta 128 4 4
          InData OutGrad MeanData StdData (Some GammaGrad) (Some BetaGrad)
          (backward_example(GammaGrad := [13, 12, - 3, 4], BetaGrad := [11, 11, 11, 11])))
     = Some ([19, 17, - 13, 1], [15, 15, 15, 15])"
  by code_simp

text \<open>
  Claim C5 fails on the code. \<^verbatim>\<open>LayerNormGradCompute\<close> returns at once when the request
  for \<^verbatim>\<open>data_grad\<close> is \<^verbatim>\<open>kNullOp\<close>, whatever is requested for the scale and shift
  gradients, and its check rejects \<^verbatim>\<open>kAddTo\<close> for \<^verbatim>\<open>data_grad\<close>; the function it
  dispatches to has the code for both cases.
\<close>

theorem LayerNormGradCompute_data_req_gate:
  "LayerNormGradCompute general kMaxGridDim kBaseGridNum no_gamma no_beta beta axis shape
     inputs (kNullOp, gamma_req, beta_req) outputs s = Inr s
   \<and> LayerNormGradCompute general kMaxGridDim kBaseGridNum no_gamma no_beta beta axis shape
       inputs (kAddTo, gamma_req, beta_req) outputs s = Inl CHECK_failed"
  by (simp add: LayerNormGradCompute_def)

lemma backward_example_GammaBeta_values:
  "map_option (\<lambda>s. (s OutGrad, s InData, s Gamma, s MeanData, s StdData, s DataGrad,
                      s GammaGrad, s BetaGrad, s Beta))
     (LayerNormFusedBackwardKernel_GammaBeta 4 True True no_gamma no_beta 128 4 4
        InData OutGrad MeanData StdData (Some Gamma) (Some Beta) backward_example)
   = Some (backward_example OutGrad, backward_example InData, [7, 6, - 9, - 2],
           backward_example MeanData, backward_example StdData, backward_example DataGrad,
           backward_example GammaGrad, backward_example BetaGrad, [4, 4, 4, 4])"
  by code_simp

lemma backward_example_GammaBeta:
  "LayerNormFusedBackwardKernel_GammaBeta 4 True True no_gamma no_beta 128 4 4
     InData OutGrad MeanData StdData (Some Gamma) (Some Beta) backward_example
   = Some (backward_example(Gamma := [7, 6, - 9, - 2], Beta := [4, 4, 4, 4]))"
proof -
  from backward_example_GammaBeta_values [of no_gamma no_beta]
  obtain s where s: "LayerNormFusedBackwardKernel_GammaBeta 4 True True no_gamma no_beta 128 4 4
        InData OutGrad MeanData StdData (Some Gamma) (Some Beta) backward_example = Some s"
    and v: "s OutGrad = backward_example OutGrad" "s InData = backward_example InData"
      "s Gamma = [7, 6, - 9, - 2]" "s MeanData = backward_example MeanData"
      "s StdData = backward_example StdData" "s DataGrad = backward_example DataGrad"
      "s GammaGrad = backward_example GammaGrad" "s BetaGrad = backward_example BetaGrad"
      "s Beta = [4, 4, 4, 4]"
    by auto
  have "s = backward_example(Gamma := [7, 6, - 9, - 2], Beta := [4, 4, 4, 4])"
  proof (rule ext)
    fix b show "s b = (backward_example(Gamma := [7, 6, - 9, - 2], Beta := [4, 4, 4, 4])) b"
      using v by (cases b) simp_all
  qed
  with s show ?thesis by simp
qed

lemma backward_example_Data_values:
  "map_option (\<lambda>s. (s Gamma, s Beta, s GammaGrad, s BetaGrad))
     (LayerNormFusedBackwardKernel_Data 4 False (4, 1) 1 4 4
        InData OutGrad MeanData StdData Gamma DataGrad
        (backward_example(Gamma := [7, 6, - 9, - 2], Beta := [4, 4, 4, 4])))
   = Some ([7, 6, - 9, - 2], [4, 4, 4, 4], [0, 0, 0, 0], [0, 0, 0, 0])"
  by code_simp

text \<open>
  Claim C6 fails on the code. \<^verbatim>\<open>LayerNormGradGPUContig\<close> hands the kernel the pointer of
  the input \<^verbatim>\<open>gamma\<close> (and that of \<^verbatim>\<open>beta\<close>) as the gradient pointer. On the example of
  four rows and four channels, with the scale and shift gradients accumulated, the call
  changes \<^verbatim>\<open>gamma\<close> from \<open>[1, 1, 1, 1]\<close> to \<open>[7, 6, -9, -2]\<close> and \<^verbatim>\<open>beta\<close> from zero to
  \<open>[4, 4, 4, 4]\<close>, and leaves the buffers \<^verbatim>\<open>gamma_grad\<close> and \<^verbatim>\<open>beta_grad\<close> as they were.
\<close>

theorem LayerNormGradCompute_writes_gamma:
  "map_sum id (\<lambda>s. (s Gamma, s Beta, s GammaGrad, s BetaGrad))
     (LayerNormGradCompute general 65535 1024 no_gamma no_beta Beta (- 1) [4, 4]
        [OutGrad, InData, Gamma, MeanData, StdData] (kWriteTo, kAddTo, kAddTo)
        (DataGrad, GammaGrad, BetaGrad) backward_example)
   = Inr ([7, 6, - 9, - 2], [4, 4, 4, 4], [0, 0, 0, 0], [0, 0, 0, 0])
   \<and> (backward_example Gamma, backward_example Beta,
      backward_example GammaGrad, backward_example BetaGrad)
     = ([1, 1, 1, 1], [0, 0, 0, 0], [0, 0, 0, 0], [0, 0, 0, 0])"
proof -
  from backward_example_Data_values
  obtain s where s: "LayerNormFusedBackwardKernel_Data 4 False (4, 1) 1 4 4
        InData OutGrad MeanData StdData Gamma DataGrad
        (backward_example(Gamma := [7, 6, - 9, - 2], Beta := [4, 4, 4, 4])) = Some s"
    and v: "(s Gamma, s Beta, s GammaGrad, s BetaGrad)
            = ([7, 6, - 9, - 2], [4, 4, 4, 4], [0, 0, 0, 0], [0, 0, 0, 0])"
    by auto
  have "LayerNormGradCompute general 65535 1024 no_gamma no_beta Beta (- 1) [4, 4]
        [OutGrad, InData, Gamma, MeanData, StdData] (kWriteTo, kAddTo, kAddTo)
        (DataGrad, GammaGrad, BetaGrad) backward_example = Inr s"
    unfolding LayerNormGradCompute_def LayerNormGradGPUContig_def
    using s by (simp add: Let_def launch_grid_def launch_def backward_example_GammaBeta)
  with v show ?thesis by (simp add: backward_example_def)
qed

end
